theory Spec2Isabelle
  imports Complex_Main
begin

section \<open>JavaScript values used by the two modules\<close>

text \<open>
  Numbers. Every number the Sticky widget computes with is either an integer number of
  pixels (DOM measurements, the result of \<^verbatim>\<open>parseInt\<close>) or \<^verbatim>\<open>NaN\<close> (a failed
  \<^verbatim>\<open>parseInt\<close>). Arithmetic and comparisons follow JavaScript: \<^verbatim>\<open>NaN\<close> is
  contagious in \<^verbatim>\<open>+\<close>, \<^verbatim>\<open>-\<close>, \<^verbatim>\<open>*\<close>, and every comparison with \<^verbatim>\<open>NaN\<close> is false.
  Integers are unbounded here; JavaScript computes with them exactly below \<open>2\<^sup>5\<^sup>3\<close>,
  far above any pixel count.
\<close>

datatype number = NaN | Num int

fun js_add :: "number \<Rightarrow> number \<Rightarrow> number" where
  "js_add (Num a) (Num b) = Num (a + b)"
| "js_add _ _ = NaN"

fun js_sub :: "number \<Rightarrow> number \<Rightarrow> number" where
  "js_sub (Num a) (Num b) = Num (a - b)"
| "js_sub _ _ = NaN"

fun js_mul :: "number \<Rightarrow> number \<Rightarrow> number" where
  "js_mul (Num a) (Num b) = Num (a * b)"
| "js_mul _ _ = NaN"

fun js_gt :: "number \<Rightarrow> number \<Rightarrow> bool" where
  "js_gt (Num a) (Num b) = (a > b)"
| "js_gt _ _ = False"

fun js_lt :: "number \<Rightarrow> number \<Rightarrow> bool" where
  "js_lt (Num a) (Num b) = (a < b)"
| "js_lt _ _ = False"

fun js_le :: "number \<Rightarrow> number \<Rightarrow> bool" where
  "js_le (Num a) (Num b) = (a \<le> b)"
| "js_le _ _ = False"

text \<open>
  The one division of the widget, \<^verbatim>\<open>(width * 100) / clientWidth\<close>, is the only place
  where a non-integer can arise. Its result is a value of its own type: a fraction, an
  infinity (division of a non-zero number by zero) or \<^verbatim>\<open>NaN\<close> (zero by zero).
\<close>

datatype quotient = Q_NaN | Q_PosInf | Q_NegInf | Q_Fin rat

fun js_div :: "number \<Rightarrow> number \<Rightarrow> quotient" where
  "js_div (Num a) (Num b) =
     (if b = 0 then (if a = 0 then Q_NaN else if 0 < a then Q_PosInf else Q_NegInf)
      else Q_Fin (of_int a / of_int b))"
| "js_div _ _ = Q_NaN"

fun quot_gt :: "quotient \<Rightarrow> int \<Rightarrow> bool" where
  "quot_gt (Q_Fin q) c = (q > of_int c)"
| "quot_gt Q_PosInf c = True"
| "quot_gt _ c = False"

text \<open>
  Values: what an option of the widget can hold. \<open>JObj\<close> is an opaque object reference
  (a DOM element handed over as \<^verbatim>\<open>topElement\<close>, for instance).
\<close>

datatype jsval = JUndefined | JNull | JBool bool | JNum number | JStr string | JObj nat

text \<open>An object with string keys; a missing property reads as \<^verbatim>\<open>undefined\<close>.\<close>

type_synonym jsobj = "string \<rightharpoonup> jsval"

definition getprop :: "jsobj \<Rightarrow> string \<Rightarrow> jsval" where
  "getprop ob k = (case ob k of None \<Rightarrow> JUndefined | Some v \<Rightarrow> v)"

text \<open>\<^verbatim>\<open>typeof v === 'undefined'\<close>\<close>

fun is_undefined :: "jsval \<Rightarrow> bool" where
  "is_undefined JUndefined = True"
| "is_undefined _ = False"

text \<open>Truthiness, as the conditional operator \<^verbatim>\<open>v ? a : b\<close> tests it.\<close>

fun truthy :: "jsval \<Rightarrow> bool" where
  "truthy JUndefined = False"
| "truthy JNull = False"
| "truthy (JBool b) = b"
| "truthy (JNum NaN) = False"
| "truthy (JNum (Num n)) = (n \<noteq> 0)"
| "truthy (JStr s) = (s \<noteq> [])"
| "truthy (JObj r) = True"

subsection \<open>Number to string, and \<^verbatim>\<open>parseInt(v, 10)\<close>\<close>

definition digit_char :: "nat \<Rightarrow> char" where
  "digit_char d = ''0123456789'' ! d"

fun digits :: "nat \<Rightarrow> string" where
  "digits n = (if n < 10 then [digit_char n] else digits (n div 10) @ [digit_char (n mod 10)])"

declare digits.simps [simp del]

text \<open>\<^verbatim>\<open>String(n)\<close> for the numbers of this model, as in \<^verbatim>\<open>n + 'px'\<close>.\<close>

fun js_to_string :: "number \<Rightarrow> string" where
  "js_to_string NaN = ''NaN''"
| "js_to_string (Num i) = (if i < 0 then CHR ''-'' # digits (nat (- i)) else digits (nat i))"

definition is_digit :: "char \<Rightarrow> bool" where
  "is_digit c = (48 \<le> (of_char c :: nat) \<and> (of_char c :: nat) \<le> 57)"

definition digit_val :: "char \<Rightarrow> nat" where
  "digit_val c = of_char c - 48"

text \<open>
  White space (\<^verbatim>\<open>\s\<close>, and what \<^verbatim>\<open>parseInt\<close> skips) and line terminators (what \<^verbatim>\<open>.\<close>
  does not match), for ASCII text: tab, line feed, vertical tab, form feed, carriage
  return, space.
\<close>

definition is_space :: "char \<Rightarrow> bool" where
  "is_space c = (c \<in> set [CHR 0x09, CHR 0x0A, CHR 0x0B, CHR 0x0C, CHR 0x0D, CHR 0x20])"

definition is_line_terminator :: "char \<Rightarrow> bool" where
  "is_line_terminator c = (c = CHR 0x0A \<or> c = CHR 0x0D)"

definition digits_value :: "string \<Rightarrow> nat" where
  "digits_value ds = foldl (\<lambda>a c. 10 * a + digit_val c) 0 ds"

text \<open>
  \<^verbatim>\<open>parseInt(s, 10)\<close> on a string: skip leading white space, read an optional sign, then
  the longest run of decimal digits; no digit at all gives \<^verbatim>\<open>NaN\<close>.
\<close>

definition parseInt_digits :: "int \<Rightarrow> string \<Rightarrow> number" where
  "parseInt_digits sign s =
     (let ds = takeWhile is_digit s
      in if ds = [] then NaN else Num (sign * int (digits_value ds)))"

definition parseInt_string :: "string \<Rightarrow> number" where
  "parseInt_string s =
     (case dropWhile is_space s of
        [] \<Rightarrow> NaN
      | c # r \<Rightarrow>
          if c = CHR ''-'' then parseInt_digits (- 1) r
          else if c = CHR ''+'' then parseInt_digits 1 r
          else parseInt_digits 1 (c # r))"

text \<open>
  \<^verbatim>\<open>parseInt(v, 10)\<close> on any value: the value is converted to a string first
  (\<^verbatim>\<open>'undefined'\<close>, \<^verbatim>\<open>'null'\<close>, \<^verbatim>\<open>'true'\<close>, \<^verbatim>\<open>'[object ...]'\<close> hold no digit).
\<close>

fun parseInt :: "jsval \<Rightarrow> number" where
  "parseInt (JStr s) = parseInt_string s"
| "parseInt (JNum n) = parseInt_string (js_to_string n)"
| "parseInt _ = NaN"

section \<open>Ink.UI.Sticky\<close>

subsection \<open>The widget, its element and what it measures\<close>

text \<open>
  The target element (\<^verbatim>\<open>this._rootElement\<close>): its inline \<^verbatim>\<open>style\<close> attribute (\<open>None\<close>
  when the attribute is absent, otherwise the declared properties), its class names and
  its data-attributes as \<^verbatim>\<open>Element.data\<close> returns them.
\<close>

record element =
  style :: "(string \<rightharpoonup> string) option"
  classNames :: "string set"
  dataAttrs :: jsobj

text \<open>
  What one run of the scroll handler reads from the page: \<^verbatim>\<open>Element.elementWidth\<close> of the
  target, the viewport's \<^verbatim>\<open>clientWidth\<close>, and the bounding rectangles of the target and
  of the two boundary elements, in whole pixels.
\<close>

record geometry =
  elementWidth :: int
  clientWidth :: int
  elementRect_top :: int
  elementRect_bottom :: int
  topRect_bottom :: int
  bottomRect_top :: int

text \<open>
  What a recomputation (\<^verbatim>\<open>_calculateOriginalSizes\<close>, \<^verbatim>\<open>_calculateOffsets\<close> and the scroll
  handler the latter ends with) reads from the page.
\<close>

record layout =
  root_offsetTop :: int
  root_offsetLeft :: int
  computedStyle_width :: string
  computedStyle_height :: string
  topElementHeight :: int
  topElementTop :: int
  bottomElementHeight :: int
  scroll_geometry :: geometry

text \<open>
  The widget object: \<^verbatim>\<open>_options\<close>, \<^verbatim>\<open>ORIGINAL\<close>, \<^verbatim>\<open>_stickingTo\<close> (\<open>None\<close> while it is
  still \<^verbatim>\<open>undefined\<close>), the node names of the two boundary elements found by the
  constructor, and \<^verbatim>\<open>_dims\<close>.
\<close>

record sticky =
  options :: jsobj
  ORIGINAL :: jsobj
  stickingTo :: "string option"
  topElement_nodeName :: string
  bottomElement_nodeName :: string
  dims_height :: string
  dims_width :: string

subsection \<open>Collaborators\<close>

text \<open>
  Modelled from the spec: \<^verbatim>\<open>Ink.extendObj\<close>, the toolkit's shallow object merge, is not
  among the source files. It copies the properties of each further argument into the
  first one, from left to right, so a later argument overwrites an earlier one (this is
  what lets the first argument hold the defaults).
\<close>

fun extendObj :: "jsobj \<Rightarrow> jsobj list \<Rightarrow> jsobj" where
  "extendObj destination [] = destination"
| "extendObj destination (source # others) = destination ++ extendObj source others"

text \<open>
  Modelled from the spec: \<^verbatim>\<open>Css.addRemoveClassName(el, name, condition)\<close> is not among
  the source files. It adds the class when the condition holds and removes it otherwise.
\<close>

definition addRemoveClassName :: "element \<Rightarrow> string \<Rightarrow> bool \<Rightarrow> element" where
  "addRemoveClassName elm name cond =
     elm\<lparr>classNames := (if cond then insert name (classNames elm) else classNames elm - {name})\<rparr>"

text \<open>
  The declarations of the inline style (none when the attribute is absent), and
  \<^verbatim>\<open>elm.style.p = v\<close>: the property is declared inline, creating the attribute if needed.
\<close>

definition inline_style :: "element \<Rightarrow> string \<rightharpoonup> string" where
  "inline_style elm = (case style elm of None \<Rightarrow> Map.empty | Some m \<Rightarrow> m)"

definition set_style :: "string \<Rightarrow> string \<Rightarrow> element \<Rightarrow> element" where
  "set_style p v elm = elm\<lparr>style := Some ((inline_style elm)(p \<mapsto> v))\<rparr>"

text \<open>\<^verbatim>\<open>if (Element.hasAttribute(elm, 'style')) elm.removeAttribute('style')\<close>\<close>

definition removeAttribute_style :: "element \<Rightarrow> element" where
  "removeAttribute_style elm = (if style elm \<noteq> None then elm\<lparr>style := None\<rparr> else elm)"

subsection \<open>The scroll handler\<close>

text \<open>
  The body of \<^verbatim>\<open>_onScroll\<close>; one call is one scroll tick that the throttle lets through.
  First the guard of lines 106 to 109.
\<close>

definition narrow_guard :: "geometry \<Rightarrow> bool" where
  "narrow_guard g =
     (quot_gt (js_div (js_mul (Num (elementWidth g)) (Num 100)) (Num (clientWidth g))) 90
      \<or> js_le (Num (clientWidth g)) (Num 649))"

text \<open>The locals \<^verbatim>\<open>offsetTop\<close>, \<^verbatim>\<open>offsetBottom\<close> (lines 121, 122) and \<^verbatim>\<open>elementHeight\<close>.\<close>

definition scroll_offsetTop :: "sticky \<Rightarrow> number" where
  "scroll_offsetTop w =
     (if truthy (getprop (ORIGINAL w) ''offsetTop'')
      then parseInt (getprop (ORIGINAL w) ''offsetTop'') else Num 0)"

definition scroll_offsetBottom :: "sticky \<Rightarrow> number" where
  "scroll_offsetBottom w =
     (if truthy (getprop (ORIGINAL w) ''offsetBottom'')
      then parseInt (getprop (ORIGINAL w) ''offsetBottom'') else Num 0)"

definition elementHeight :: "geometry \<Rightarrow> number" where
  "elementHeight g = js_sub (Num (elementRect_bottom g)) (Num (elementRect_top g))"

text \<open>
  Lines 129 to 144: the chain of conditions. It returns the local \<^verbatim>\<open>stickingTo\<close> (the
  empty string when no branch is taken) and the element with its inline style updated.
\<close>

definition place :: "sticky \<Rightarrow> geometry \<Rightarrow> element \<Rightarrow> string \<times> element" where
  "place w g elm =
     (if js_gt (Num (topRect_bottom g)) (scroll_offsetTop w)
         \<and> js_gt (Num (bottomRect_top g)) (elementHeight g)
      then (''top'', set_style ''top'' ''auto'' (set_style ''position'' ''static'' elm))
      else if js_lt (Num (bottomRect_top g)) (elementHeight g)
      then (''bottom'',
            set_style ''top''
              (js_to_string
                 (js_sub (js_sub (Num (bottomRect_top g)) (elementHeight g)) (scroll_offsetBottom w))
               @ ''px'')
              (set_style ''position'' ''fixed'' elm))
      else if js_le (Num (topRect_bottom g)) (scroll_offsetTop w)
      then (''screen'',
            set_style ''top'' (js_to_string (scroll_offsetTop w) @ ''px'')
              (set_style ''position'' ''fixed'' elm))
      else ([], elm))"

definition onScroll :: "sticky \<Rightarrow> geometry \<Rightarrow> element \<Rightarrow> sticky \<times> element" where
  "onScroll w g elm =
     (if narrow_guard g then (w, removeAttribute_style elm)
      else
        let (sticking, elm1) = place w g elm;
            w1 = (if sticking \<noteq> [] \<and> Some sticking \<noteq> stickingTo w
                  then w\<lparr>stickingTo := Some sticking\<rparr> else w);
            elm2 = addRemoveClassName elm1 ''ink-sticky-sticking'' (sticking = ''top'');
            elm3 = addRemoveClassName elm2 ''ink-sticky-sticking-bottom'' (sticking = ''bottom'')
        in (w1, elm3))"

subsection \<open>Recomputation of sizes and offsets\<close>

definition isNaN :: "number \<Rightarrow> bool" where
  "isNaN n = (n = NaN)"

definition calculateOriginalSizes :: "sticky \<Rightarrow> layout \<Rightarrow> sticky" where
  "calculateOriginalSizes w lay =
     (let o0 = options w;
          o1 = (if is_undefined (getprop o0 ''originalOffsetTop'')
                then (o0(''originalOffsetTop'' \<mapsto> JNum (parseInt (getprop o0 ''offsetTop''))))
                       (''originalOffsetBottom'' \<mapsto> JNum (parseInt (getprop o0 ''offsetBottom'')))
                else o0);
          o2 = o1(''originalTop'' \<mapsto> JNum (parseInt (JNum (Num (root_offsetTop lay)))));
          o3 = o2(''originalLeft'' \<mapsto> JNum (parseInt (JNum (Num (root_offsetLeft lay)))));
          o4 = o3(''originalWidth'' \<mapsto> JNum (parseInt (JStr (dims_width w))));
          o5 = (if isNaN (parseInt (JStr (dims_width w)))
                then o4(''originalWidth'' \<mapsto> JNum (Num 0)) else o4);
          o6 = o5(''originalWidth'' \<mapsto> JNum (parseInt (JStr (computedStyle_width lay))))
      in w\<lparr>options := o6\<rparr>)"

text \<open>\<^verbatim>\<open>toLowerCase()\<close>, for ASCII text.\<close>

definition toLowerCase_char :: "char \<Rightarrow> char" where
  "toLowerCase_char c =
     (case map_of (zip ''ABCDEFGHIJKLMNOPQRSTUVWXYZ'' ''abcdefghijklmnopqrstuvwxyz'') c of
        None \<Rightarrow> c
      | Some l \<Rightarrow> l)"

definition toLowerCase :: "string \<Rightarrow> string" where
  "toLowerCase s = map toLowerCase_char s"

text \<open>
  \<^verbatim>\<open>_calculateOffsets\<close>. Both boundary elements are set by the constructor, so the two
  \<^verbatim>\<open>typeof ... !== 'undefined'\<close> tests hold. It ends with a call of the scroll handler,
  which is run here at once (in the page the call passes through the 10 ms throttle).
\<close>

definition recomputed_options :: "sticky \<Rightarrow> layout \<Rightarrow> jsobj" where
  "recomputed_options w lay =
     (let o0 = options w;
          o1 = (if toLowerCase (topElement_nodeName w) \<noteq> ''body''
                then o0(''offsetTop'' \<mapsto>
                       JNum (js_add (js_add (parseInt (JNum (Num (topElementHeight lay))))
                                            (parseInt (JNum (Num (topElementTop lay)))))
                                    (parseInt (getprop o0 ''originalOffsetTop''))))
                else o0(''offsetTop'' \<mapsto> JNum (parseInt (getprop o0 ''originalOffsetTop''))));
          o2 = (if toLowerCase (bottomElement_nodeName w) \<noteq> ''body''
                then o1(''offsetBottom'' \<mapsto>
                       JNum (js_add (parseInt (JNum (Num (bottomElementHeight lay))))
                                    (parseInt (getprop o1 ''originalOffsetBottom''))))
                else o1(''offsetBottom'' \<mapsto> JNum (parseInt (getprop o1 ''originalOffsetBottom''))))
      in o2)"

definition calculateOffsets :: "sticky \<Rightarrow> layout \<Rightarrow> element \<Rightarrow> sticky \<times> element" where
  "calculateOffsets w lay elm =
     onScroll (w\<lparr>options := recomputed_options w lay\<rparr>) (scroll_geometry lay) elm"

text \<open>
  The function that \<^verbatim>\<open>_onResize\<close> schedules with \<^verbatim>\<open>setTimeout\<close>: it removes the inline
  style, then recomputes sizes and offsets. One call is one resize whose timer fires.
\<close>

definition onResize :: "sticky \<Rightarrow> layout \<Rightarrow> element \<Rightarrow> sticky \<times> element" where
  "onResize w lay elm =
     calculateOffsets (calculateOriginalSizes w lay) lay (elm\<lparr>style := None\<rparr>)"

text \<open>Any number of resizes, each with the layout the page has at that moment.\<close>

fun resizes :: "sticky \<times> element \<Rightarrow> layout list \<Rightarrow> sticky \<times> element" where
  "resizes we [] = we"
| "resizes we (lay # lays) = resizes (onResize (fst we) lay (snd we)) lays"

subsection \<open>The constructor\<close>

datatype error = InvalidSelector | ElementNotFound | BoundaryNotFound

text \<open>
  The first argument: an object (the element itself), a string (a query) or anything
  else. The page answers queries: \<^verbatim>\<open>Selector.select\<close> returns the matching elements, and
  \<^verbatim>\<open>Aux.elOrSelector\<close> returns the node name of the element it resolves to, or fails.
\<close>

datatype selector = SelElement element | SelQuery string | SelOther

record document =
  select :: "string \<Rightarrow> element list"
  elOrSelector :: "jsval \<Rightarrow> string option"

text \<open>The defaults of lines 49 to 54; the two elements are present with the value \<^verbatim>\<open>undefined\<close>.\<close>

definition default_options :: jsobj where
  "default_options =
     [''offsetBottom'' \<mapsto> JNum (Num 0), ''offsetTop'' \<mapsto> JNum (Num 0),
      ''topElement'' \<mapsto> JUndefined, ''bottomElement'' \<mapsto> JUndefined]"

text \<open>
  Lines 32 to 44: anything but an object or a string is refused; a string must select at
  least one element, and the first one is taken.
\<close>

definition find_rootElement :: "selector \<Rightarrow> document \<Rightarrow> error + element" where
  "find_rootElement sel doc =
     (case sel of
        SelOther \<Rightarrow> Inl InvalidSelector
      | SelElement elm \<Rightarrow> Inr elm
      | SelQuery q \<Rightarrow> (case select doc q of [] \<Rightarrow> Inl ElementNotFound | elm # _ \<Rightarrow> Inr elm))"

text \<open>
  Lines 58 to 68: a boundary option that is not \<^verbatim>\<open>undefined\<close> is resolved by
  \<^verbatim>\<open>Aux.elOrSelector\<close>, otherwise the body is taken.
\<close>

definition find_boundary :: "document \<Rightarrow> jsval \<Rightarrow> string option" where
  "find_boundary doc v =
     (if \<not> is_undefined v then elOrSelector doc v else elOrSelector doc (JStr ''body''))"

text \<open>
  \<^verbatim>\<open>new Sticky(selector, options)\<close>; \<open>None\<close> for the second argument is a missing (or
  falsy) \<^verbatim>\<open>options\<close>, replaced by the empty object.
\<close>

definition Sticky :: "selector \<Rightarrow> jsobj option \<Rightarrow> document \<Rightarrow> layout \<Rightarrow> error + (sticky \<times> element)" where
  "Sticky sel opts doc lay =
     (case find_rootElement sel doc of
        Inl err \<Rightarrow> Inl err
      | Inr elm \<Rightarrow>
          let os = extendObj default_options
                     [case opts of None \<Rightarrow> Map.empty | Some given \<Rightarrow> given, dataAttrs elm];
              orig = extendObj Map.empty [os]
          in (case find_boundary doc (getprop os ''topElement'') of
                None \<Rightarrow> Inl BoundaryNotFound
              | Some top_name \<Rightarrow>
                  (case find_boundary doc (getprop os ''bottomElement'') of
                     None \<Rightarrow> Inl BoundaryNotFound
                   | Some bottom_name \<Rightarrow>
                       let w = \<lparr>options = os, ORIGINAL = orig, stickingTo = None,
                                topElement_nodeName = top_name,
                                bottomElement_nodeName = bottom_name,
                                dims_height = computedStyle_height lay,
                                dims_width = computedStyle_width lay\<rparr>
                       in Inr (calculateOffsets (calculateOriginalSizes w lay) lay elm))))"

section \<open>Ink.Dom.Browser\<close>

subsection \<open>The regular expressions of the sniffer\<close>

text \<open>
  The sniffer uses a few shapes of regular expression; each is modelled by the function
  that a backtracking matcher computes for it. A literal part is a list of character
  tests, so that \<^verbatim>\<open>.\<close> and \<^verbatim>\<open>\s\<close> can stand in it.
\<close>

type_synonym charclass = "char \<Rightarrow> bool"

definition lit :: "string \<Rightarrow> charclass list" where
  "lit s = map (\<lambda>x c. c = x) s"

definition any_char :: charclass where
  "any_char c = (\<not> is_line_terminator c)"

definition starts_with :: "string \<Rightarrow> string \<Rightarrow> bool" where
  "starts_with p s = (take (length p) s = p)"

text \<open>\<^verbatim>\<open>/literal/.test(s)\<close>: the literal occurs somewhere in \<open>s\<close>.\<close>

fun test_literal :: "string \<Rightarrow> string \<Rightarrow> bool" where
  "test_literal p [] = (p = [])"
| "test_literal p (c # cs) = (starts_with p (c # cs) \<or> test_literal p cs)"

text \<open>The literal part at the head of the text; the result is what follows it.\<close>

fun match_literal :: "charclass list \<Rightarrow> string \<Rightarrow> string option" where
  "match_literal [] s = Some s"
| "match_literal (p # ps) [] = None"
| "match_literal (p # ps) (c # cs) = (if p c then match_literal ps cs else None)"

text \<open>
  A greedy group \<^verbatim>\<open>([class]+)\<close> followed by a literal suffix: the longest non-empty run
  of the class after which the suffix matches. The result is the group and what follows
  the suffix.
\<close>

fun match_class_plus :: "charclass \<Rightarrow> charclass list \<Rightarrow> string \<Rightarrow> (string \<times> string) option" where
  "match_class_plus cls suf [] = None"
| "match_class_plus cls suf (c # cs) =
     (if cls c
      then (case match_class_plus cls suf cs of
              Some (grp, r) \<Rightarrow> Some (c # grp, r)
            | None \<Rightarrow> (case match_literal suf cs of Some r \<Rightarrow> Some ([c], r) | None \<Rightarrow> None))
      else None)"

text \<open>
  \<^verbatim>\<open>literal([class]+)suffix(.*)\<close> at the head of the text: the group, and the text left
  after the final \<^verbatim>\<open>(.*)\<close> has taken the rest of the line.
\<close>

definition match_tail :: "charclass list \<Rightarrow> charclass \<Rightarrow> charclass list \<Rightarrow> string \<Rightarrow> (string \<times> string) option" where
  "match_tail l cls suf s =
     (case match_literal l s of
        None \<Rightarrow> None
      | Some s1 \<Rightarrow>
          (case match_class_plus cls suf s1 of
             None \<Rightarrow> None
           | Some (grp, r) \<Rightarrow> Some (grp, dropWhile any_char r)))"

text \<open>
  The leading greedy \<^verbatim>\<open>(.*)\<close>: it takes as many characters of the line as it can while
  the rest of the pattern still matches.
\<close>

fun match_dotstar :: "charclass list \<Rightarrow> charclass \<Rightarrow> charclass list \<Rightarrow> string \<Rightarrow> (string \<times> string) option" where
  "match_dotstar l cls suf [] = match_tail l cls suf []"
| "match_dotstar l cls suf (c # cs) =
     (if any_char c
      then (case match_dotstar l cls suf cs of
              Some m \<Rightarrow> Some m
            | None \<Rightarrow> match_tail l cls suf (c # cs))
      else match_tail l cls suf (c # cs))"

text \<open>
  \<^verbatim>\<open>s.replace(/(.*)literal([class]+)suffix(.*)/, "$2")\<close>: the first position where the
  pattern matches; what is before it stays, the match is replaced by the group. \<open>None\<close>
  when the pattern matches nowhere (\<^verbatim>\<open>replace\<close> then returns the string unchanged, and
  \<^verbatim>\<open>test\<close> returns false).
\<close>

fun replace_first :: "charclass list \<Rightarrow> charclass \<Rightarrow> charclass list \<Rightarrow> string \<Rightarrow> string option" where
  "replace_first l cls suf [] =
     (case match_dotstar l cls suf [] of Some (grp, r) \<Rightarrow> Some (grp @ r) | None \<Rightarrow> None)"
| "replace_first l cls suf (c # cs) =
     (case match_dotstar l cls suf (c # cs) of
        Some (grp, r) \<Rightarrow> Some (grp @ r)
      | None \<Rightarrow> (case replace_first l cls suf cs of Some t \<Rightarrow> Some (c # t) | None \<Rightarrow> None))"

definition replace_group2 :: "charclass list \<Rightarrow> charclass \<Rightarrow> charclass list \<Rightarrow> string \<Rightarrow> string" where
  "replace_group2 l cls suf s = (case replace_first l cls suf s of Some t \<Rightarrow> t | None \<Rightarrow> s)"

definition test_pattern :: "charclass list \<Rightarrow> charclass \<Rightarrow> charclass list \<Rightarrow> string \<Rightarrow> bool" where
  "test_pattern l cls suf s = (replace_first l cls suf s \<noteq> None)"

text \<open>
  \<^verbatim>\<open>/literal([class]+)/\<close> with \<^verbatim>\<open>test\<close> and \<^verbatim>\<open>match(...)[1]\<close>: the group of the first
  match, \<open>None\<close> when there is no match.
\<close>

fun exec_group1 :: "charclass list \<Rightarrow> charclass \<Rightarrow> string \<Rightarrow> string option" where
  "exec_group1 l cls [] = None"
| "exec_group1 l cls (c # cs) =
     (case (case match_literal l (c # cs) of None \<Rightarrow> None | Some s1 \<Rightarrow> match_class_plus cls [] s1) of
        Some (grp, r) \<Rightarrow> Some grp
      | None \<Rightarrow> exec_group1 l cls cs)"

text \<open>
  \<^verbatim>\<open>/(a|b|...)/\<close> with \<^verbatim>\<open>test\<close> and \<^verbatim>\<open>match(...)[1]\<close>: at the first position where an
  alternative matches, the first alternative that does.
\<close>

fun exec_alternatives :: "string list \<Rightarrow> string \<Rightarrow> string option" where
  "exec_alternatives alts [] = None"
| "exec_alternatives alts (c # cs) =
     (case find (\<lambda>a. starts_with a (c # cs)) alts of
        Some a \<Rightarrow> Some a
      | None \<Rightarrow> exec_alternatives alts cs)"

subsection \<open>The Browser object and \<^verbatim>\<open>_sniffUserAgent\<close>\<close>

text \<open>
  The fields the sniffer writes. \<open>None\<close> stands for the sentinel \<^verbatim>\<open>false\<close> of \<^verbatim>\<open>model\<close>,
  \<^verbatim>\<open>version\<close> and \<^verbatim>\<open>userAgent\<close>, and for a prefix that has not been set.
\<close>

record browser =
  IE :: bool
  GECKO :: bool
  OPERA :: bool
  SAFARI :: bool
  KONQUEROR :: bool
  CHROME :: bool
  model :: "string option"
  version :: "string option"
  userAgent :: "string option"
  cssPrefix :: "string option"
  domPrefix :: "string option"

definition Browser :: browser where
  "Browser = \<lparr>IE = False, GECKO = False, OPERA = False, SAFARI = False, KONQUEROR = False,
              CHROME = False, model = None, version = None, userAgent = None,
              cssPrefix = None, domPrefix = None\<rparr>"

definition not_space :: charclass where
  "not_space c = (\<not> is_space c)"

definition gecko_models :: "string list" where
  "gecko_models =
     [''camino'', ''chimera'', ''epiphany'', ''minefield'', ''firefox'', ''firebird'',
      ''phoenix'', ''galeon'', ''iceweasel'', ''k-meleon'', ''seamonkey'', ''netscape'',
      ''songbird'', ''sylera'']"

definition sniff_webkit :: "browser \<Rightarrow> string \<Rightarrow> browser" where
  "sniff_webkit b sAgent =
     (if test_literal ''chrome/'' sAgent \<or> test_literal ''crios/'' sAgent
      then b\<lparr>CHROME := True, model := Some ''chrome'',
              version := Some (replace_group2 (lit ''chrome/'') not_space [] sAgent)\<rparr>
      else b\<lparr>SAFARI := True, model := Some ''safari'',
              version :=
                (case exec_group1 (lit ''version/'') (\<lambda>c. c \<noteq> CHR '')'' \<and> c \<noteq> CHR '' '') sAgent of
                   Some v \<Rightarrow> Some v
                 | None \<Rightarrow> Some (replace_group2 (lit ''applewebkit/'') not_space [] sAgent))\<rparr>)"

definition sniff_ie :: "browser \<Rightarrow> string \<Rightarrow> browser" where
  "sniff_ie b sAgent =
     b\<lparr>IE := True, model := Some ''ie'',
       version :=
         (case exec_group1 (lit ''rv:'') (\<lambda>c. is_digit c \<or> c = CHR ''.'') sAgent of
            Some v \<Rightarrow> Some v
          | None \<Rightarrow>
              Some (replace_group2 (is_space # lit ''msie'' @ [is_space]) (\<lambda>c. c \<noteq> CHR '';'')
                      (lit '';'') sAgent)),
       cssPrefix := Some ''-ms-'', domPrefix := Some ''ms''\<rparr>"

definition sniff_gecko :: "browser \<Rightarrow> string \<Rightarrow> browser" where
  "sniff_gecko b sAgent =
     (let b1 = b\<lparr>cssPrefix := Some ''-moz-'', domPrefix := Some ''Moz'', GECKO := True\<rparr>
      in case exec_alternatives gecko_models sAgent of
           Some m \<Rightarrow>
             b1\<lparr>model := Some m,
                version :=
                  Some (replace_group2 (lit (m @ ''/''))
                          (\<lambda>c. c \<noteq> CHR '';'' \<and> \<not> is_space c \<and> c \<noteq> CHR ''$'') [] sAgent)\<rparr>
         | None \<Rightarrow>
             (let b2 = b1\<lparr>model := Some ''mozilla''\<rparr>
              in if test_pattern (lit ''rv:'') (\<lambda>c. c \<noteq> CHR '')'') [] sAgent
                 then b2\<lparr>version :=
                           Some (replace_group2 (lit ''rv:'') (\<lambda>c. c \<noteq> CHR '')'') [] sAgent)\<rparr>
                 else b2))"

text \<open>
  The chain of \<^verbatim>\<open>_sniffUserAgent\<close>. The test \<^verbatim>\<open>/(msie|trident)/i\<close> ignores case: both
  sides are compared in lower case.
\<close>

definition sniffUserAgent :: "browser \<Rightarrow> string \<Rightarrow> browser" where
  "sniffUserAgent b ua =
     (let b0 = b\<lparr>userAgent := Some ua\<rparr>;
          sAgent = toLowerCase ua
      in if test_literal ''applewebkit/'' sAgent
         then sniff_webkit (b0\<lparr>cssPrefix := Some ''-webkit-'', domPrefix := Some ''Webkit''\<rparr>) sAgent
         else if test_literal ''opera'' sAgent
         then b0\<lparr>OPERA := True, model := Some ''opera'',
                 version :=
                   Some (replace_group2 (lit ''opera'' @ [any_char])
                           (\<lambda>c. \<not> is_space c \<and> c \<noteq> CHR ''$'') [] sAgent),
                 cssPrefix := Some ''-o-'', domPrefix := Some ''O''\<rparr>
         else if test_literal ''konqueror'' sAgent
         then b0\<lparr>KONQUEROR := True, model := Some ''konqueror'',
                 version :=
                   Some (replace_group2 (lit ''konqueror/'') (\<lambda>c. c \<noteq> CHR '';'') (lit '';'') sAgent),
                 cssPrefix := Some ''-khtml-'', domPrefix := Some ''Khtml''\<rparr>
         else if test_literal ''msie'' (toLowerCase sAgent) \<or> test_literal ''trident'' (toLowerCase sAgent)
         then sniff_ie b0 sAgent
         else if test_literal ''gecko'' sAgent
         then sniff_gecko b0 sAgent
         else b0)"

section \<open>Concrete pages, widgets and user agents\<close>

text \<open>
  Inputs at which the theorems below are exercised: a target 300 pixels wide in a
  viewport 1200 pixels wide (the guard does not fire), with the given target height
  and boundary edges; an element with no inline style; a page whose header is a
  \<^verbatim>\<open>div\<close>; widgets built from a configuration.
\<close>

definition wide_geometry :: "int \<Rightarrow> int \<Rightarrow> int \<Rightarrow> geometry" where
  "wide_geometry height top_bottom bottom_top =
     \<lparr>elementWidth = 300, clientWidth = 1200, elementRect_top = 0, elementRect_bottom = height,
      topRect_bottom = top_bottom, bottomRect_top = bottom_top\<rparr>"

definition narrow_geometry :: geometry where
  "narrow_geometry =
     \<lparr>elementWidth = 300, clientWidth = 600, elementRect_top = 0, elementRect_bottom = 40,
      topRect_bottom = 100, bottomRect_top = 20\<rparr>"

definition plain_element :: element where
  "plain_element = \<lparr>style = None, classNames = {}, dataAttrs = Map.empty\<rparr>"

definition styled_element :: element where
  "styled_element =
     \<lparr>style = Some [''position'' \<mapsto> ''fixed'', ''top'' \<mapsto> ''0px''],
      classNames = {''ink-sticky-sticking''}, dataAttrs = Map.empty\<rparr>"

definition attributed_element :: element where
  "attributed_element =
     \<lparr>style = None, classNames = {}, dataAttrs = [''offsetTop'' \<mapsto> JStr ''50'']\<rparr>"

definition plain_widget :: "jsobj \<Rightarrow> sticky" where
  "plain_widget conf =
     \<lparr>options = conf, ORIGINAL = conf, stickingTo = None, topElement_nodeName = ''BODY'',
      bottomElement_nodeName = ''BODY'', dims_height = ''40px'', dims_width = ''300px''\<rparr>"


definition header_page :: document where
  "header_page =
     \<lparr>select = (\<lambda>q. []),
      elOrSelector = (\<lambda>v. if v = JStr ''#header'' then Some ''DIV''
                           else if v = JStr ''body'' then Some ''BODY'' else None)\<rparr>"

definition header_layout :: "geometry \<Rightarrow> layout" where
  "header_layout g =
     \<lparr>root_offsetTop = 120, root_offsetLeft = 10, computedStyle_width = ''300px'',
      computedStyle_height = ''40px'', topElementHeight = 100, topElementTop = 0,
      bottomElementHeight = 60, scroll_geometry = g\<rparr>"

text \<open>The family flags of the Browser object, in the order of its \<^verbatim>\<open>debug\<close> dump, then CHROME.\<close>

definition family_flags :: "browser \<Rightarrow> bool list" where
  "family_flags b = [IE b, GECKO b, OPERA b, SAFARI b, KONQUEROR b, CHROME b]"

text \<open>User agents: Chrome on Linux, Chrome on iOS, Firefox, and a text browser.\<close>

definition chrome_ua :: string where
  "chrome_ua = ''Mozilla/5.0 (X11; Linux x86_64) AppleWebKit/537.36 (KHTML, like Gecko) Chrome/30.0.1599.66 Safari/537.36''"

definition crios_ua :: string where
  "crios_ua = ''Mozilla/5.0 (iPhone; CPU iPhone OS 7_0 like Mac OS X) AppleWebKit/537.51.1 (KHTML, like Gecko) CriOS/30.0.1599.12 Mobile/11A465 Safari/8536.25''"

definition firefox_ua :: string where
  "firefox_ua = ''Mozilla/5.0 (X11; Ubuntu; Linux x86_64; rv:22.0) Gecko/20100101 Firefox/22.0''"

definition lynx_ua :: string where
  "lynx_ua = ''Lynx/2.8.8dev.3 libwww-FM/2.14 SSL-MM/1.4.1''"

section \<open>Auxiliary facts\<close>

subsection \<open>Printing an integer and parsing it back\<close>

lemma is_digit_not_special:
  assumes "is_digit c"
  shows "\<not> is_space c" and "c \<noteq> CHR ''-''" and "c \<noteq> CHR ''+''"
  using assms by (auto simp: is_digit_def is_space_def)

lemma digit_char_props:
  assumes "d < 10"
  shows "is_digit (digit_char d)" and "digit_val (digit_char d) = d"
proof -
  have "d \<in> {0, 1, 2, 3, 4, 5, 6, 7, 8, 9}" using assms by auto
  then show "is_digit (digit_char d)" and "digit_val (digit_char d) = d"
    by (auto simp: is_digit_def digit_val_def digit_char_def)
qed

lemma digits_all_digit: "\<forall>c \<in> set (digits n). is_digit c"
proof (induction n rule: digits.induct)
  case (1 n)
  show ?case
  proof (cases "n < 10")
    case True
    then show ?thesis by (subst digits.simps) (simp add: digit_char_props)
  next
    case False
    with 1 show ?thesis by (subst digits.simps) (simp add: digit_char_props)
  qed
qed

lemma digits_value_snoc: "digits_value (ds @ [c]) = 10 * digits_value ds + digit_val c"
  by (simp add: digits_value_def)

lemma digits_value_digits: "digits_value (digits n) = n"
proof (induction n rule: digits.induct)
  case (1 n)
  show ?case
  proof (cases "n < 10")
    case True
    then show ?thesis by (subst digits.simps) (simp add: digits_value_def digit_char_props)
  next
    case False
    with 1 show ?thesis
      by (subst digits.simps) (simp add: digits_value_snoc digit_char_props)
  qed
qed

lemma digits_Cons: "\<exists>c r. digits n = c # r \<and> is_digit c"
proof -
  have "digits n \<noteq> []" by (subst digits.simps) simp
  then obtain c r where cr: "digits n = c # r" by (cases "digits n") auto
  then have "is_digit c" using digits_all_digit[of n] by simp
  with cr show ?thesis by blast
qed

lemma parseInt_digits_digits: "parseInt_digits sg (digits n) = Num (sg * int n)"
proof -
  have tw: "takeWhile is_digit (digits n) = digits n"
    using digits_all_digit[of n] by (simp add: takeWhile_eq_all_conv)
  have ne: "digits n \<noteq> []" using digits_Cons[of n] by auto
  show ?thesis unfolding parseInt_digits_def Let_def tw
    using ne by (simp add: digits_value_digits)
qed

lemma parseInt_string_digits: "parseInt_string (digits n) = Num (int n)"
proof -
  obtain c r where cr: "digits n = c # r" "is_digit c" using digits_Cons by blast
  have "parseInt_string (c # r) = parseInt_digits 1 (c # r)"
    using is_digit_not_special[OF cr(2)] by (simp add: parseInt_string_def)
  then show ?thesis using parseInt_digits_digits[of 1 n] cr(1) by simp
qed

lemma parseInt_Num: "parseInt (JNum (Num i)) = Num i"
proof (cases "i < 0")
  case True
  have "\<not> is_space CHR ''-''" by (simp add: is_space_def)
  then have "parseInt_string (CHR ''-'' # digits (nat (- i))) = parseInt_digits (- 1) (digits (nat (- i)))"
    by (simp add: parseInt_string_def)
  with True show ?thesis by (simp add: parseInt_digits_digits)
next
  case False
  then show ?thesis by (simp add: parseInt_string_digits)
qed

lemma parseInt_NaN: "parseInt (JNum NaN) = NaN"
  by (simp add: parseInt_string_def parseInt_digits_def is_space_def is_digit_def)

text \<open>From here on \<^verbatim>\<open>parseInt\<close> of a number is rewritten by the two facts above.\<close>

declare parseInt.simps(2) [simp del]
declare parseInt_Num [simp]
declare parseInt_NaN [simp]

subsection \<open>The scroll handler\<close>

lemma narrow_guard_iff:
  "narrow_guard g \<longleftrightarrow> (90 * clientWidth g < elementWidth g * 100 \<or> clientWidth g \<le> 649)"
proof (cases "clientWidth g \<le> 649")
  case True
  then show ?thesis by (simp add: narrow_guard_def)
next
  case False
  then have pos: "(0::rat) < of_int (clientWidth g)" by simp
  have "((90::rat) < of_int (elementWidth g * 100) / of_int (clientWidth g))
        \<longleftrightarrow> ((90::rat) * of_int (clientWidth g) < of_int (elementWidth g * 100))"
    using pos by (simp add: pos_less_divide_eq)
  also have "\<dots> \<longleftrightarrow> (of_int (90 * clientWidth g) :: rat) < of_int (elementWidth g * 100)"
    by simp
  also have "\<dots> \<longleftrightarrow> 90 * clientWidth g < elementWidth g * 100"
    by (rule of_int_less_iff)
  finally show ?thesis using False by (simp add: narrow_guard_def)
qed

lemma removeAttribute_style_eq: "removeAttribute_style elm = elm\<lparr>style := None\<rparr>"
  by (simp add: removeAttribute_style_def)

lemma js_gt_not_le: "js_gt a b \<Longrightarrow> \<not> js_le a b"
  by (cases a; cases b) auto

text \<open>The scroll handler writes the stored mode and nothing else of the widget.\<close>

lemma onScroll_widget:
  "fst (onScroll w g elm) = w\<lparr>stickingTo := stickingTo (fst (onScroll w g elm))\<rparr>"
proof (cases "narrow_guard g")
  case True
  then show ?thesis by (simp add: onScroll_def)
next
  case False
  obtain s e where p: "place w g elm = (s, e)" by (cases "place w g elm")
  show ?thesis using False p by (simp add: onScroll_def Let_def)
qed

lemma onScroll_options [simp]: "options (fst (onScroll w g elm)) = options w"
  by (subst onScroll_widget) simp

lemma onScroll_ORIGINAL [simp]: "ORIGINAL (fst (onScroll w g elm)) = ORIGINAL w"
  by (subst onScroll_widget) simp

lemma onScroll_nodeNames [simp]:
  "topElement_nodeName (fst (onScroll w g elm)) = topElement_nodeName w"
  "bottomElement_nodeName (fst (onScroll w g elm)) = bottomElement_nodeName w"
  by (subst onScroll_widget, simp)+

lemma place_dataAttrs: "dataAttrs (snd (place w g elm)) = dataAttrs elm"
  by (simp add: place_def set_style_def)

lemma onScroll_dataAttrs [simp]: "dataAttrs (snd (onScroll w g elm)) = dataAttrs elm"
proof (cases "narrow_guard g")
  case True
  then show ?thesis by (simp add: onScroll_def removeAttribute_style_def)
next
  case False
  obtain s e where p: "place w g elm = (s, e)" by (cases "place w g elm")
  then have "dataAttrs e = dataAttrs elm" using place_dataAttrs[of w g elm] by simp
  then show ?thesis using False p by (simp add: onScroll_def Let_def addRemoveClassName_def)
qed

text \<open>The scroll handler does not read \<^verbatim>\<open>_options\<close>.\<close>

lemma scroll_offsets_options [simp]:
  "scroll_offsetTop (w\<lparr>options := os\<rparr>) = scroll_offsetTop w"
  "scroll_offsetBottom (w\<lparr>options := os\<rparr>) = scroll_offsetBottom w"
  by (simp_all add: scroll_offsetTop_def scroll_offsetBottom_def)



subsection \<open>Recomputation\<close>

lemma getprop_upd [simp]: "getprop (ob(k \<mapsto> v)) k' = (if k' = k then v else getprop ob k')"
  by (simp add: getprop_def)

lemma getprop_empty [simp]: "getprop Map.empty k = JUndefined"
  by (simp add: getprop_def)

lemma recomputed_options_other:
  "k \<noteq> ''offsetTop'' \<Longrightarrow> k \<noteq> ''offsetBottom'' \<Longrightarrow> recomputed_options w lay k = options w k"
  by (simp add: recomputed_options_def Let_def)

lemma calculateOffsets_other:
  "k \<noteq> ''offsetTop'' \<Longrightarrow> k \<noteq> ''offsetBottom'' \<Longrightarrow>
   options (fst (calculateOffsets w lay elm)) k = options w k"
  by (simp add: calculateOffsets_def recomputed_options_other)

lemma calculateOffsets_ORIGINAL [simp]:
  "ORIGINAL (fst (calculateOffsets w lay elm)) = ORIGINAL w"
  by (simp add: calculateOffsets_def)

lemma calculateOriginalSizes_ORIGINAL [simp]:
  "ORIGINAL (calculateOriginalSizes w lay) = ORIGINAL w"
  by (simp add: calculateOriginalSizes_def Let_def)

lemma calculateOriginalSizes_nodeNames [simp]:
  "topElement_nodeName (calculateOriginalSizes w lay) = topElement_nodeName w"
  "bottomElement_nodeName (calculateOriginalSizes w lay) = bottomElement_nodeName w"
  by (simp_all add: calculateOriginalSizes_def Let_def)

lemma calculateOriginalSizes_originalOffsetTop:
  "getprop (options (calculateOriginalSizes w lay)) ''originalOffsetTop'' =
     (if is_undefined (getprop (options w) ''originalOffsetTop'')
      then JNum (parseInt (getprop (options w) ''offsetTop''))
      else getprop (options w) ''originalOffsetTop'')"
  by (simp add: calculateOriginalSizes_def Let_def)

lemma getprop_cong: "ob k = ob' k \<Longrightarrow> getprop ob k = getprop ob' k"
  by (simp add: getprop_def)

lemma onResize_originalOffsetTop:
  assumes "getprop (options w) ''originalOffsetTop'' = JNum n"
  shows "getprop (options (fst (onResize w lay elm))) ''originalOffsetTop'' = JNum n"
proof -
  have "getprop (options (fst (onResize w lay elm))) ''originalOffsetTop''
        = getprop (options (calculateOriginalSizes w lay)) ''originalOffsetTop''"
    unfolding onResize_def by (rule getprop_cong, rule calculateOffsets_other) simp_all
  also have "\<dots> = JNum n"
    using assms by (simp add: calculateOriginalSizes_originalOffsetTop)
  finally show ?thesis .
qed

lemma resizes_originalOffsetTop:
  "getprop (options (fst we)) ''originalOffsetTop'' = JNum n \<Longrightarrow>
   getprop (options (fst (resizes we lays))) ''originalOffsetTop'' = JNum n"
proof (induction lays arbitrary: we)
  case Nil
  then show ?case by simp
next
  case (Cons lay lays)
  have "getprop (options (fst (onResize (fst we) lay (snd we)))) ''originalOffsetTop'' = JNum n"
    using Cons.prems by (rule onResize_originalOffsetTop)
  then show ?case using Cons.IH by simp
qed

section \<open>The scroll handler: guard and modes\<close>

text \<open>
  C3. On a scroll tick where the target's width exceeds 90 percent of the viewport width,
  or the viewport is at most 649 pixels wide, the handler removes the inline style
  attribute and returns: the widget (with its stored mode) is unchanged, and so are the
  classes of the element, whatever the boundary geometry is.
\<close>

theorem narrow_viewport_strips_style:
  assumes "90 * clientWidth g < elementWidth g * 100 \<or> clientWidth g \<le> 649"
  shows "onScroll w g elm = (w, elm\<lparr>style := None\<rparr>)"
  using assms by (simp add: onScroll_def narrow_guard_iff removeAttribute_style_eq)

theorem narrow_viewport_strips_style_witness:
  "clientWidth narrow_geometry \<le> 649 \<and>
   onScroll (plain_widget Map.empty) narrow_geometry styled_element =
     (plain_widget Map.empty, styled_element\<lparr>style := None\<rparr>)"
proof -
  have h: "90 * clientWidth narrow_geometry < elementWidth narrow_geometry * 100
           \<or> clientWidth narrow_geometry \<le> 649"
    by (simp add: narrow_geometry_def)
  show ?thesis
    using narrow_viewport_strips_style [OF h, of "plain_widget Map.empty" styled_element]
    by (simp add: narrow_geometry_def)
qed

text \<open>
  C1. On a tick where the guard does not fire, the local mode is chosen by testing the TOP
  condition first, then BOTTOM, then SCREEN; and when the BOTTOM condition holds (the
  bottom boundary's top edge is closer than the target's height) the handler sets
  \<^verbatim>\<open>style.position\<close> to \<^verbatim>\<open>'fixed'\<close> and \<^verbatim>\<open>style.top\<close> to
  \<^verbatim>\<open>bottomRect.top - elementHeight - offsetBottom\<close> followed by \<^verbatim>\<open>'px'\<close>, stores the mode
  \<^verbatim>\<open>'bottom'\<close>, and leaves only the bottom class on the element.
\<close>

theorem onScroll_bottom_placement:
  assumes "elementWidth g * 100 \<le> 90 * clientWidth g" and "649 < clientWidth g"
  shows "fst (place w g elm) =
           (if js_gt (Num (topRect_bottom g)) (scroll_offsetTop w)
               \<and> elementRect_bottom g - elementRect_top g < bottomRect_top g then ''top''
            else if bottomRect_top g < elementRect_bottom g - elementRect_top g then ''bottom''
            else if js_le (Num (topRect_bottom g)) (scroll_offsetTop w) then ''screen''
            else [])
         \<and> (bottomRect_top g < elementRect_bottom g - elementRect_top g \<longrightarrow>
              onScroll w g elm =
                (w\<lparr>stickingTo := Some ''bottom''\<rparr>,
                 elm\<lparr>style := Some ((inline_style elm)
                          (''position'' \<mapsto> ''fixed'',
                           ''top'' \<mapsto>
                             js_to_string
                               (js_sub (Num (bottomRect_top g
                                             - (elementRect_bottom g - elementRect_top g)))
                                       (scroll_offsetBottom w)) @ ''px'')),
                      classNames := insert ''ink-sticky-sticking-bottom''
                                      (classNames elm - {''ink-sticky-sticking''})\<rparr>))"
proof (intro conjI impI)
  show "fst (place w g elm) =
           (if js_gt (Num (topRect_bottom g)) (scroll_offsetTop w)
               \<and> elementRect_bottom g - elementRect_top g < bottomRect_top g then ''top''
            else if bottomRect_top g < elementRect_bottom g - elementRect_top g then ''bottom''
            else if js_le (Num (topRect_bottom g)) (scroll_offsetTop w) then ''screen''
            else [])"
    by (simp add: place_def elementHeight_def)
next
  assume b: "bottomRect_top g < elementRect_bottom g - elementRect_top g"
  have ng: "\<not> narrow_guard g" using assms by (simp add: narrow_guard_iff)
  have p: "place w g elm =
             (''bottom'',
              set_style ''top''
                (js_to_string
                   (js_sub (js_sub (Num (bottomRect_top g)) (elementHeight g)) (scroll_offsetBottom w))
                 @ ''px'')
                (set_style ''position'' ''fixed'' elm))"
    using b by (simp add: place_def elementHeight_def)
  show "onScroll w g elm =
          (w\<lparr>stickingTo := Some ''bottom''\<rparr>,
           elm\<lparr>style := Some ((inline_style elm)
                    (''position'' \<mapsto> ''fixed'',
                     ''top'' \<mapsto>
                       js_to_string
                         (js_sub (Num (bottomRect_top g
                                       - (elementRect_bottom g - elementRect_top g)))
                                 (scroll_offsetBottom w)) @ ''px'')),
                classNames := insert ''ink-sticky-sticking-bottom''
                                (classNames elm - {''ink-sticky-sticking''})\<rparr>)"
    using ng
    by (auto simp: onScroll_def p addRemoveClassName_def set_style_def inline_style_def
        elementHeight_def)
qed

theorem onScroll_bottom_placement_witness:
  "elementWidth (wide_geometry 40 (- 10) 30) * 100 \<le> 90 * clientWidth (wide_geometry 40 (- 10) 30)
   \<and> 649 < clientWidth (wide_geometry 40 (- 10) 30)
   \<and> bottomRect_top (wide_geometry 40 (- 10) 30)
       < elementRect_bottom (wide_geometry 40 (- 10) 30) - elementRect_top (wide_geometry 40 (- 10) 30)
   \<and> js_le (Num (topRect_bottom (wide_geometry 40 (- 10) 30)))
        (scroll_offsetTop (plain_widget [''offsetBottom'' \<mapsto> JNum (Num 5)]))
   \<and> fst (place (plain_widget [''offsetBottom'' \<mapsto> JNum (Num 5)]) (wide_geometry 40 (- 10) 30)
        styled_element) = ''bottom''
   \<and> onScroll (plain_widget [''offsetBottom'' \<mapsto> JNum (Num 5)]) (wide_geometry 40 (- 10) 30)
        styled_element =
       ((plain_widget [''offsetBottom'' \<mapsto> JNum (Num 5)])\<lparr>stickingTo := Some ''bottom''\<rparr>,
        styled_element\<lparr>style := Some [''position'' \<mapsto> ''fixed'', ''top'' \<mapsto> ''-15px''],
                        classNames := {''ink-sticky-sticking-bottom''}\<rparr>)"
proof -
  let ?g = "wide_geometry 40 (- 10) 30"
  let ?w = "plain_widget [''offsetBottom'' \<mapsto> JNum (Num 5)]"
  have h1: "elementWidth ?g * 100 \<le> 90 * clientWidth ?g" by (simp add: wide_geometry_def)
  have h2: "649 < clientWidth ?g" by (simp add: wide_geometry_def)
  have ob: "scroll_offsetBottom ?w = Num 5"
    by (simp add: scroll_offsetBottom_def plain_widget_def)
  have ot: "scroll_offsetTop ?w = Num 0"
    by (simp add: scroll_offsetTop_def plain_widget_def getprop_def)
  have str: "digits 15 = ''15''"
    by (simp add: digits.simps digit_char_def)
  show ?thesis
    using onScroll_bottom_placement [OF h1 h2, of ?w styled_element]
    by (simp add: ob ot str wide_geometry_def styled_element_def inline_style_def)
qed

text \<open>
  C10. On a tick where the guard does not fire, the top boundary's bottom edge is below
  the top offset and the bottom boundary's top edge is exactly at the target's height, no
  branch of the chain is taken: the inline style is left as it was, the stored mode is
  not updated, and both sticking classes are removed.
\<close>

theorem onScroll_no_mode_at_exact_height:
  assumes "elementWidth g * 100 \<le> 90 * clientWidth g" and "649 < clientWidth g"
    and "js_gt (Num (topRect_bottom g)) (scroll_offsetTop w)"
    and "bottomRect_top g = elementRect_bottom g - elementRect_top g"
  shows "fst (place w g elm) = [] \<and>
         onScroll w g elm =
           (w, elm\<lparr>classNames := classNames elm
                      - {''ink-sticky-sticking'', ''ink-sticky-sticking-bottom''}\<rparr>)"
proof -
  have ng: "\<not> narrow_guard g" using assms(1,2) by (simp add: narrow_guard_iff)
  have le: "\<not> js_le (Num (topRect_bottom g)) (scroll_offsetTop w)"
    using assms(3) by (rule js_gt_not_le)
  have p: "place w g elm = ([], elm)"
    using assms(4) le by (simp add: place_def elementHeight_def)
  have cs: "classNames elm - {''ink-sticky-sticking''} - {''ink-sticky-sticking-bottom''}
            = classNames elm - {''ink-sticky-sticking'', ''ink-sticky-sticking-bottom''}"
    by blast
  show ?thesis
    using ng by (simp add: onScroll_def p addRemoveClassName_def cs)
qed

theorem onScroll_no_mode_at_exact_height_witness:
  "elementWidth (wide_geometry 40 100 40) * 100 \<le> 90 * clientWidth (wide_geometry 40 100 40)
   \<and> 649 < clientWidth (wide_geometry 40 100 40)
   \<and> js_gt (Num (topRect_bottom (wide_geometry 40 100 40)))
        (scroll_offsetTop ((plain_widget Map.empty)\<lparr>stickingTo := Some ''screen''\<rparr>))
   \<and> bottomRect_top (wide_geometry 40 100 40)
       = elementRect_bottom (wide_geometry 40 100 40) - elementRect_top (wide_geometry 40 100 40)
   \<and> onScroll ((plain_widget Map.empty)\<lparr>stickingTo := Some ''screen''\<rparr>) (wide_geometry 40 100 40)
        styled_element =
       ((plain_widget Map.empty)\<lparr>stickingTo := Some ''screen''\<rparr>,
        styled_element\<lparr>classNames := {}\<rparr>)"
proof -
  let ?g = "wide_geometry 40 100 40"
  let ?w = "(plain_widget Map.empty)\<lparr>stickingTo := Some ''screen''\<rparr>"
  have h1: "elementWidth ?g * 100 \<le> 90 * clientWidth ?g" by (simp add: wide_geometry_def)
  have h2: "649 < clientWidth ?g" by (simp add: wide_geometry_def)
  have ot: "scroll_offsetTop ?w = Num 0"
    by (simp add: scroll_offsetTop_def plain_widget_def getprop_def)
  have h3: "js_gt (Num (topRect_bottom ?g)) (scroll_offsetTop ?w)"
    by (simp add: ot wide_geometry_def)
  have h4: "bottomRect_top ?g = elementRect_bottom ?g - elementRect_top ?g"
    by (simp add: wide_geometry_def)
  show ?thesis
    using onScroll_no_mode_at_exact_height [OF h1 h2 h3 h4, of styled_element] h3
    by (simp add: wide_geometry_def styled_element_def)
qed

text \<open>
  C4, as the code has it. On a tick where the guard does not fire, the top boundary's
  bottom edge is below the top offset and the bottom boundary's top edge is farther away
  than the target's height, the stored mode becomes \<^verbatim>\<open>'top'\<close> and the inline style of the
  target declares \<^verbatim>\<open>position: static\<close> and \<^verbatim>\<open>top: auto\<close>; the class
  \<^verbatim>\<open>ink-sticky-sticking\<close> is added and the bottom class removed.
\<close>

theorem onScroll_top_mode:
  assumes "elementWidth g * 100 \<le> 90 * clientWidth g" and "649 < clientWidth g"
    and "js_gt (Num (topRect_bottom g)) (scroll_offsetTop w)"
    and "elementRect_bottom g - elementRect_top g < bottomRect_top g"
  shows "onScroll w g elm =
           (w\<lparr>stickingTo := Some ''top''\<rparr>,
            elm\<lparr>style := Some ((inline_style elm)
                     (''position'' \<mapsto> ''static'', ''top'' \<mapsto> ''auto'')),
                 classNames := insert ''ink-sticky-sticking'' (classNames elm)
                                 - {''ink-sticky-sticking-bottom''}\<rparr>)"
proof -
  have ng: "\<not> narrow_guard g" using assms(1,2) by (simp add: narrow_guard_iff)
  have p: "place w g elm =
             (''top'', set_style ''top'' ''auto'' (set_style ''position'' ''static'' elm))"
    using assms(3,4) by (simp add: place_def elementHeight_def)
  show ?thesis
    using ng
    by (auto simp: onScroll_def p addRemoveClassName_def set_style_def inline_style_def)
qed

theorem onScroll_top_mode_witness:
  "elementWidth (wide_geometry 40 100 900) * 100 \<le> 90 * clientWidth (wide_geometry 40 100 900)
   \<and> 649 < clientWidth (wide_geometry 40 100 900)
   \<and> js_gt (Num (topRect_bottom (wide_geometry 40 100 900))) (scroll_offsetTop (plain_widget Map.empty))
   \<and> elementRect_bottom (wide_geometry 40 100 900) - elementRect_top (wide_geometry 40 100 900)
       < bottomRect_top (wide_geometry 40 100 900)
   \<and> onScroll (plain_widget Map.empty) (wide_geometry 40 100 900) plain_element =
       ((plain_widget Map.empty)\<lparr>stickingTo := Some ''top''\<rparr>,
        plain_element\<lparr>style := Some [''position'' \<mapsto> ''static'', ''top'' \<mapsto> ''auto''],
                       classNames := {''ink-sticky-sticking''}\<rparr>)"
proof -
  let ?g = "wide_geometry 40 100 900"
  let ?w = "plain_widget Map.empty"
  have h1: "elementWidth ?g * 100 \<le> 90 * clientWidth ?g" by (simp add: wide_geometry_def)
  have h2: "649 < clientWidth ?g" by (simp add: wide_geometry_def)
  have ot: "scroll_offsetTop ?w = Num 0"
    by (simp add: scroll_offsetTop_def plain_widget_def getprop_def)
  have h3: "js_gt (Num (topRect_bottom ?g)) (scroll_offsetTop ?w)"
    by (simp add: ot wide_geometry_def)
  have h4: "elementRect_bottom ?g - elementRect_top ?g < bottomRect_top ?g"
    by (simp add: wide_geometry_def)
  show ?thesis
    using onScroll_top_mode [OF h1 h2 h3 h4, of plain_element] h3
    by (simp add: wide_geometry_def plain_element_def inline_style_def)
qed

text \<open>
  C4 as stated fails: after such a tick on an element that had no inline style, the
  element carries an inline \<^verbatim>\<open>position\<close> declaration (with the value \<^verbatim>\<open>static\<close>).
\<close>

theorem top_mode_inline_position_counterexample:
  "\<not> narrow_guard (wide_geometry 40 100 900)
   \<and> js_gt (Num (topRect_bottom (wide_geometry 40 100 900))) (scroll_offsetTop (plain_widget Map.empty))
   \<and> js_gt (Num (bottomRect_top (wide_geometry 40 100 900))) (elementHeight (wide_geometry 40 100 900))
   \<and> style plain_element = None
   \<and> stickingTo (fst (onScroll (plain_widget Map.empty) (wide_geometry 40 100 900) plain_element))
       = Some ''top''
   \<and> style (snd (onScroll (plain_widget Map.empty) (wide_geometry 40 100 900) plain_element)) \<noteq> None
   \<and> inline_style (snd (onScroll (plain_widget Map.empty) (wide_geometry 40 100 900) plain_element))
        ''position'' = Some ''static''"
proof -
  let ?g = "wide_geometry 40 100 900"
  let ?w = "plain_widget Map.empty"
  have ng: "\<not> narrow_guard ?g" by (simp add: narrow_guard_iff wide_geometry_def)
  have ot: "scroll_offsetTop ?w = Num 0"
    by (simp add: scroll_offsetTop_def plain_widget_def getprop_def)
  have gt: "js_gt (Num (topRect_bottom ?g)) (scroll_offsetTop ?w)"
    by (simp add: ot wide_geometry_def)
  have far: "js_gt (Num (bottomRect_top ?g)) (elementHeight ?g)"
    by (simp add: elementHeight_def wide_geometry_def)
  have p: "place ?w ?g plain_element =
             (''top'', set_style ''top'' ''auto'' (set_style ''position'' ''static'' plain_element))"
    using gt far by (simp add: place_def)
  have sw: "stickingTo ?w = None" by (simp add: plain_widget_def)
  have r: "onScroll ?w ?g plain_element =
             (?w\<lparr>stickingTo := Some ''top''\<rparr>,
              addRemoveClassName
                (addRemoveClassName
                   (set_style ''top'' ''auto'' (set_style ''position'' ''static'' plain_element))
                   ''ink-sticky-sticking'' True)
                ''ink-sticky-sticking-bottom'' False)"
    using ng sw by (simp add: onScroll_def p)
  have s: "style plain_element = None" by (simp add: plain_element_def)
  show ?thesis
    unfolding r using ng gt far s
    by (simp add: addRemoveClassName_def set_style_def inline_style_def)
qed

section \<open>Configuration, offsets and recomputation\<close>

lemma extendObj_copy: "extendObj Map.empty [os] = os"
  by simp

text \<open>What the constructor returns, when it returns a widget.\<close>

lemma Sticky_Inr:
  assumes "Sticky sel opts doc lay = Inr we"
  shows "\<exists>elm w0.
           find_rootElement sel doc = Inr elm
           \<and> options w0 = extendObj default_options
                              [case opts of None \<Rightarrow> Map.empty | Some given \<Rightarrow> given, dataAttrs elm]
           \<and> ORIGINAL w0 = options w0
           \<and> find_boundary doc (getprop (options w0) ''topElement'') = Some (topElement_nodeName w0)
           \<and> find_boundary doc (getprop (options w0) ''bottomElement'')
               = Some (bottomElement_nodeName w0)
           \<and> we = calculateOffsets (calculateOriginalSizes w0 lay) lay elm"
proof -
  obtain elm where r: "find_rootElement sel doc = Inr elm"
    using assms by (cases "find_rootElement sel doc") (auto simp: Sticky_def)
  let ?os = "extendObj default_options
               [case opts of None \<Rightarrow> Map.empty | Some given \<Rightarrow> given, dataAttrs elm]"
  obtain tn where t: "find_boundary doc (getprop ?os ''topElement'') = Some tn"
    using assms r
    by (cases "find_boundary doc (getprop ?os ''topElement'')") (auto simp: Sticky_def Let_def)
  obtain bn where b: "find_boundary doc (getprop ?os ''bottomElement'') = Some bn"
    using assms r t
    by (cases "find_boundary doc (getprop ?os ''bottomElement'')") (auto simp: Sticky_def Let_def)
  let ?w0 = "\<lparr>options = ?os, ORIGINAL = extendObj Map.empty [?os], stickingTo = None,
               topElement_nodeName = tn, bottomElement_nodeName = bn,
               dims_height = computedStyle_height lay, dims_width = computedStyle_width lay\<rparr>"
  have "we = calculateOffsets (calculateOriginalSizes ?w0 lay) lay elm"
    using assms r t b by (simp add: Sticky_def Let_def)
  moreover have "ORIGINAL ?w0 = options ?w0" by simp
  moreover have "options ?w0 = ?os" by simp
  moreover have "find_boundary doc (getprop (options ?w0) ''topElement'')
                 = Some (topElement_nodeName ?w0)" using t by simp
  moreover have "find_boundary doc (getprop (options ?w0) ''bottomElement'')
                 = Some (bottomElement_nodeName ?w0)" using b by simp
  ultimately show ?thesis using r by blast
qed



lemma calculateOffsets_nodeNames [simp]:
  "topElement_nodeName (fst (calculateOffsets w lay elm)) = topElement_nodeName w"
  "bottomElement_nodeName (fst (calculateOffsets w lay elm)) = bottomElement_nodeName w"
  by (simp_all add: calculateOffsets_def)

lemma calculateOffsets_dataAttrs [simp]:
  "dataAttrs (snd (calculateOffsets w lay elm)) = dataAttrs elm"
  by (simp add: calculateOffsets_def)

text \<open>
  The resolution order under the merge as modelled above (a later source overwrites an
  earlier one). The configuration is the merge of the defaults, then the \<^verbatim>\<open>options\<close>
  argument, then the data-attributes of the element, in the order of the call of line 49:
  for every option a data-attribute wins over the explicitly supplied value, and the
  explicitly supplied value wins only over the built-in default.
\<close>

theorem option_resolution_order:
  assumes "Sticky sel opts doc lay = Inr we"
  shows "ORIGINAL (fst we) k =
           (case dataAttrs (snd we) k of
              Some v \<Rightarrow> Some v
            | None \<Rightarrow>
                (case (case opts of None \<Rightarrow> Map.empty | Some given \<Rightarrow> given) k of
                   Some v \<Rightarrow> Some v
                 | None \<Rightarrow> default_options k))"
proof -
  obtain elm w0 where w0:
    "options w0 = extendObj default_options
                    [case opts of None \<Rightarrow> Map.empty | Some given \<Rightarrow> given, dataAttrs elm]"
    "ORIGINAL w0 = options w0"
    "we = calculateOffsets (calculateOriginalSizes w0 lay) lay elm"
    using Sticky_Inr [OF assms] by blast
  have "ORIGINAL (fst we) = options w0" using w0 by simp
  moreover have "dataAttrs (snd we) = dataAttrs elm" using w0 by simp
  ultimately show ?thesis
    using w0(1) by (simp add: map_add_def split: option.splits)
qed

theorem option_resolution_order_witness:
  "(case Sticky (SelElement attributed_element) (Some [''offsetTop'' \<mapsto> JNum (Num 10)]) header_page
          (header_layout (wide_geometry 40 100 900)) of
      Inl err \<Rightarrow> False
    | Inr we \<Rightarrow>
        ORIGINAL (fst we) ''offsetTop'' = Some (JStr ''50'')
        \<and> ORIGINAL (fst we) ''offsetBottom'' = Some (JNum (Num 0)))"
proof -
  let ?r = "Sticky (SelElement attributed_element) (Some [''offsetTop'' \<mapsto> JNum (Num 10)]) header_page
              (header_layout (wide_geometry 40 100 900))"
  have "\<exists>we. ?r = Inr we"
    by (simp add: Sticky_def find_rootElement_def find_boundary_def header_page_def Let_def
        getprop_def default_options_def attributed_element_def map_add_def)
  then obtain we where we: "?r = Inr we" ..
  have d: "dataAttrs (snd we) = dataAttrs attributed_element"
    using Sticky_Inr [OF we] by (auto simp: find_rootElement_def)
  have "ORIGINAL (fst we) ''offsetTop'' = Some (JStr ''50'')
        \<and> ORIGINAL (fst we) ''offsetBottom'' = Some (JNum (Num 0))"
    using option_resolution_order [OF we, of "''offsetTop''"]
      option_resolution_order [OF we, of "''offsetBottom''"]
    by (simp add: d attributed_element_def default_options_def)
  then show ?thesis unfolding we by simp
qed


text \<open>
  C5. For a widget constructed with \<^verbatim>\<open>offsetTop: 20\<close> (and no \<^verbatim>\<open>originalOffsetTop\<close>
  supplied), the stored \<^verbatim>\<open>originalOffsetTop\<close> is 20 after construction and after any
  number of resizes, whatever the page's layout is at each of them.
\<close>

theorem originalOffsetTop_never_drifts:
  assumes "Sticky sel opts doc lay = Inr we"
    and "getprop (ORIGINAL (fst we)) ''offsetTop'' = JNum (Num 20)"
    and "is_undefined (getprop (ORIGINAL (fst we)) ''originalOffsetTop'')"
  shows "getprop (options (fst (resizes we lays))) ''originalOffsetTop'' = JNum (Num 20)"
proof -
  obtain elm w0 where w0:
    "ORIGINAL w0 = options w0"
    "we = calculateOffsets (calculateOriginalSizes w0 lay) lay elm"
    using Sticky_Inr [OF assms(1)] by blast
  have orig: "ORIGINAL (fst we) = options w0" using w0 by simp
  have "getprop (options (fst we)) ''originalOffsetTop''
        = getprop (options (calculateOriginalSizes w0 lay)) ''originalOffsetTop''"
    unfolding w0(2) by (rule getprop_cong, rule calculateOffsets_other) simp_all
  also have "\<dots> = JNum (Num 20)"
    using assms(2,3) by (simp add: orig calculateOriginalSizes_originalOffsetTop)
  finally show ?thesis by (rule resizes_originalOffsetTop)
qed

theorem originalOffsetTop_never_drifts_witness:
  "(case Sticky (SelElement plain_element)
          (Some [''offsetTop'' \<mapsto> JNum (Num 20), ''topElement'' \<mapsto> JStr ''#header'']) header_page
          (header_layout (wide_geometry 40 100 900)) of
      Inl err \<Rightarrow> False
    | Inr we \<Rightarrow>
        getprop (ORIGINAL (fst we)) ''offsetTop'' = JNum (Num 20)
        \<and> is_undefined (getprop (ORIGINAL (fst we)) ''originalOffsetTop'')
        \<and> getprop (options (fst (resizes we
              [header_layout (wide_geometry 40 (- 30) 900), header_layout narrow_geometry])))
            ''originalOffsetTop'' = JNum (Num 20))"
proof -
  let ?opts = "[''offsetTop'' \<mapsto> JNum (Num 20), ''topElement'' \<mapsto> JStr ''#header'']"
  let ?lay = "header_layout (wide_geometry 40 100 900)"
  let ?r = "Sticky (SelElement plain_element) (Some ?opts) header_page ?lay"
  have "\<exists>we. ?r = Inr we"
    by (simp add: Sticky_def find_rootElement_def find_boundary_def header_page_def Let_def
        getprop_def default_options_def plain_element_def map_add_def)
  then obtain we where we: "?r = Inr we" ..
  obtain elm w0 where w0:
    "find_rootElement (SelElement plain_element) header_page = Inr elm"
    "options w0 = extendObj default_options
                    [case Some ?opts of None \<Rightarrow> Map.empty | Some given \<Rightarrow> given, dataAttrs elm]"
    "ORIGINAL w0 = options w0"
    "we = calculateOffsets (calculateOriginalSizes w0 ?lay) ?lay elm"
    using Sticky_Inr [OF we] by blast
  have elm: "elm = plain_element" using w0(1) by (simp add: find_rootElement_def)
  have h2: "getprop (ORIGINAL (fst we)) ''offsetTop'' = JNum (Num 20)"
    using w0 by (simp add: elm getprop_def plain_element_def map_add_def default_options_def)
  have h3: "is_undefined (getprop (ORIGINAL (fst we)) ''originalOffsetTop'')"
    using w0 by (simp add: elm getprop_def plain_element_def map_add_def default_options_def)
  show ?thesis
    unfolding we
    using h2 h3 originalOffsetTop_never_drifts [OF we h2 h3,
      of "[header_layout (wide_geometry 40 (- 30) 900), header_layout narrow_geometry]"]
    by simp
qed




subsection \<open>Offsets that do not parse\<close>

lemma parseInt_abc: "parseInt_string ''abc'' = NaN"
  by (simp add: parseInt_string_def parseInt_digits_def is_space_def is_digit_def)

lemma parseInt_empty: "parseInt_string [] = NaN"
  by (simp add: parseInt_string_def)

text \<open>The chain of conditions depends on the widget through the two local offsets only.\<close>

lemma place_cong:
  "scroll_offsetTop w = scroll_offsetTop w' \<Longrightarrow> scroll_offsetBottom w = scroll_offsetBottom w' \<Longrightarrow>
   place w g elm = place w' g elm"
  by (simp add: place_def)

lemma onScroll_cong:
  assumes "place w g elm = place w' g elm" and "stickingTo w = stickingTo w'"
  shows "snd (onScroll w g elm) = snd (onScroll w' g elm)
         \<and> stickingTo (fst (onScroll w g elm)) = stickingTo (fst (onScroll w' g elm))"
proof (cases "narrow_guard g")
  case True
  then show ?thesis using assms(2) by (simp add: onScroll_def)
next
  case False
  obtain s e where p: "place w' g elm = (s, e)" by (cases "place w' g elm")
  show ?thesis using False assms p by (simp add: onScroll_def Let_def)
qed

text \<open>With \<^verbatim>\<open>NaN\<close> as the top offset neither the TOP nor the SCREEN test can hold.\<close>

lemma place_NaN_top:
  assumes "scroll_offsetTop w = NaN"
  shows "fst (place w g elm) \<noteq> ''top'' \<and> fst (place w g elm) \<noteq> ''screen''"
  using assms by (simp add: place_def)

text \<open>With \<^verbatim>\<open>NaN\<close> as the bottom offset the BOTTOM branch assigns \<^verbatim>\<open>'NaNpx'\<close>.\<close>

lemma place_NaN_bottom:
  assumes "scroll_offsetBottom w = NaN"
    and "bottomRect_top g < elementRect_bottom g - elementRect_top g"
  shows "fst (place w g elm) = ''bottom''
         \<and> inline_style (snd (place w g elm)) ''top'' = Some ''NaNpx''"
  using assms by (simp add: place_def elementHeight_def set_style_def inline_style_def)

text \<open>A resize keeps \<^verbatim>\<open>ORIGINAL\<close>, and, once set, the two original offsets.\<close>

lemma resizes_ORIGINAL: "ORIGINAL (fst (resizes we lays)) = ORIGINAL (fst we)"
  by (induction lays arbitrary: we) (simp_all add: onResize_def)

lemma resizes_stickingTo_options:
  "scroll_offsetTop (fst (resizes we lays)) = scroll_offsetTop (fst we)"
  "scroll_offsetBottom (fst (resizes we lays)) = scroll_offsetBottom (fst we)"
  by (simp_all add: scroll_offsetTop_def scroll_offsetBottom_def resizes_ORIGINAL)

lemma calculateOriginalSizes_originalOffsetBottom:
  "getprop (options (calculateOriginalSizes w lay)) ''originalOffsetBottom'' =
     (if is_undefined (getprop (options w) ''originalOffsetTop'')
      then JNum (parseInt (getprop (options w) ''offsetBottom''))
      else getprop (options w) ''originalOffsetBottom'')"
  by (simp add: calculateOriginalSizes_def Let_def)

lemma calculateOffsets_NaN_top:
  assumes "getprop (options w) ''originalOffsetTop'' = JNum NaN"
  shows "getprop (options (fst (calculateOffsets w lay elm))) ''offsetTop'' = JNum NaN"
  using assms by (simp add: calculateOffsets_def recomputed_options_def Let_def)

lemma calculateOffsets_NaN_bottom:
  assumes "getprop (options w) ''originalOffsetBottom'' = JNum NaN"
  shows "getprop (options (fst (calculateOffsets w lay elm))) ''offsetBottom'' = JNum NaN"
  using assms by (simp add: calculateOffsets_def recomputed_options_def Let_def)

lemma calculateOffsets_keeps:
  assumes "k \<noteq> ''offsetTop''" and "k \<noteq> ''offsetBottom''"
  shows "getprop (options (fst (calculateOffsets w lay elm))) k = getprop (options w) k"
  by (rule getprop_cong, rule calculateOffsets_other) (use assms in simp_all)

text \<open>
  The recomputation that the constructor and every resize run: what it stores when the
  original offsets are not set yet, and what it keeps when they are.
\<close>

lemma recompute_sets_originals:
  assumes "is_undefined (getprop (options w) ''originalOffsetTop'')"
  shows "getprop (options (fst (calculateOffsets (calculateOriginalSizes w lay) lay elm)))
           ''originalOffsetTop'' = JNum (parseInt (getprop (options w) ''offsetTop''))"
    and "getprop (options (fst (calculateOffsets (calculateOriginalSizes w lay) lay elm)))
           ''originalOffsetBottom'' = JNum (parseInt (getprop (options w) ''offsetBottom''))"
  using assms
  by (simp_all add: calculateOffsets_keeps calculateOriginalSizes_originalOffsetTop
      calculateOriginalSizes_originalOffsetBottom)

lemma recompute_keeps_originals:
  assumes "getprop (options w) ''originalOffsetTop'' = JNum n"
  shows "getprop (options (fst (calculateOffsets (calculateOriginalSizes w lay) lay elm)))
           ''originalOffsetTop'' = JNum n"
    and "getprop (options (fst (calculateOffsets (calculateOriginalSizes w lay) lay elm)))
           ''originalOffsetBottom'' = getprop (options w) ''originalOffsetBottom''"
  using assms
  by (simp_all add: calculateOffsets_keeps calculateOriginalSizes_originalOffsetTop
      calculateOriginalSizes_originalOffsetBottom)

lemma recompute_caches_NaN:
  shows "getprop (options (fst (calculateOffsets (calculateOriginalSizes w lay) lay elm)))
           ''originalOffsetTop'' = JNum NaN \<Longrightarrow>
         getprop (options (fst (calculateOffsets (calculateOriginalSizes w lay) lay elm)))
           ''offsetTop'' = JNum NaN"
    and "getprop (options (fst (calculateOffsets (calculateOriginalSizes w lay) lay elm)))
           ''originalOffsetBottom'' = JNum NaN \<Longrightarrow>
         getprop (options (fst (calculateOffsets (calculateOriginalSizes w lay) lay elm)))
           ''offsetBottom'' = JNum NaN"
  by (simp_all add: calculateOffsets_keeps calculateOffsets_NaN_top calculateOffsets_NaN_bottom)

lemma resizes_NaN_top:
  assumes "getprop (options (fst we)) ''originalOffsetTop'' = JNum NaN"
    and "getprop (options (fst we)) ''offsetTop'' = JNum NaN"
  shows "getprop (options (fst (resizes we lays))) ''originalOffsetTop'' = JNum NaN
         \<and> getprop (options (fst (resizes we lays))) ''offsetTop'' = JNum NaN"
  using assms
proof (induction lays arbitrary: we)
  case Nil
  then show ?case by simp
next
  case (Cons lay lays)
  let ?we = "onResize (fst we) lay (snd we)"
  have o: "getprop (options (fst ?we)) ''originalOffsetTop'' = JNum NaN"
    unfolding onResize_def using Cons.prems(1) by (rule recompute_keeps_originals(1))
  then have c: "getprop (options (fst ?we)) ''offsetTop'' = JNum NaN"
    unfolding onResize_def by (rule recompute_caches_NaN(1))
  show ?case using Cons.IH [OF o c] by simp
qed

lemma resizes_NaN_bottom:
  assumes "getprop (options (fst we)) ''originalOffsetTop'' = JNum n"
    and "getprop (options (fst we)) ''originalOffsetBottom'' = JNum NaN"
    and "getprop (options (fst we)) ''offsetBottom'' = JNum NaN"
  shows "getprop (options (fst (resizes we lays))) ''originalOffsetBottom'' = JNum NaN
         \<and> getprop (options (fst (resizes we lays))) ''offsetBottom'' = JNum NaN"
  using assms
proof (induction lays arbitrary: we)
  case Nil
  then show ?case by simp
next
  case (Cons lay lays)
  let ?we = "onResize (fst we) lay (snd we)"
  have t: "getprop (options (fst ?we)) ''originalOffsetTop'' = JNum n"
    unfolding onResize_def using Cons.prems(1) by (rule recompute_keeps_originals(1))
  have o: "getprop (options (fst ?we)) ''originalOffsetBottom'' = JNum NaN"
    unfolding onResize_def using recompute_keeps_originals(2) [OF Cons.prems(1)] Cons.prems(2)
    by simp
  then have c: "getprop (options (fst ?we)) ''offsetBottom'' = JNum NaN"
    unfolding onResize_def by (rule recompute_caches_NaN(2))
  show ?case using Cons.IH [OF t o c] by simp
qed

text \<open>Whether the constructor returns a widget does not depend on the two offsets.\<close>

lemma Sticky_succeeds_iff:
  "(\<exists>we. Sticky sel opts doc lay = Inr we) \<longleftrightarrow>
   (\<exists>elm. find_rootElement sel doc = Inr elm
      \<and> find_boundary doc (getprop (extendObj default_options
            [case opts of None \<Rightarrow> Map.empty | Some given \<Rightarrow> given, dataAttrs elm]) ''topElement'') \<noteq> None
      \<and> find_boundary doc (getprop (extendObj default_options
            [case opts of None \<Rightarrow> Map.empty | Some given \<Rightarrow> given, dataAttrs elm]) ''bottomElement'') \<noteq> None)"
  by (auto simp: Sticky_def Let_def split: sum.splits option.splits)

lemma merged_other_option:
  assumes "k \<noteq> ''offsetTop''" and "k \<noteq> ''offsetBottom''"
  shows "getprop (extendObj default_options
                    [given(''offsetTop'' \<mapsto> v, ''offsetBottom'' \<mapsto> v'), attrs]) k
         = getprop (extendObj default_options [given, attrs]) k"
  using assms by (simp add: getprop_def map_add_def split: option.splits)

lemma Sticky_succeeds_any_offsets:
  assumes "Sticky sel opts doc lay = Inr we"
  shows "\<exists>we'. Sticky sel
                 (Some ((case opts of None \<Rightarrow> Map.empty | Some given \<Rightarrow> given)
                          (''offsetTop'' \<mapsto> v, ''offsetBottom'' \<mapsto> v')))
                 doc lay = Inr we'"
proof -
  let ?given = "case opts of None \<Rightarrow> Map.empty | Some given \<Rightarrow> given"
  have t: "getprop (extendObj default_options
                      [?given(''offsetTop'' \<mapsto> v, ''offsetBottom'' \<mapsto> v'), attrs]) ''topElement''
           = getprop (extendObj default_options [?given, attrs]) ''topElement''" for attrs
    by (rule merged_other_option) simp_all
  have b: "getprop (extendObj default_options
                      [?given(''offsetTop'' \<mapsto> v, ''offsetBottom'' \<mapsto> v'), attrs]) ''bottomElement''
           = getprop (extendObj default_options [?given, attrs]) ''bottomElement''" for attrs
    by (rule merged_other_option) simp_all
  have "\<exists>we. Sticky sel opts doc lay = Inr we" using assms by blast
  then obtain elm where elm: "find_rootElement sel doc = Inr elm"
    "find_boundary doc (getprop (extendObj default_options [?given, dataAttrs elm]) ''topElement'') \<noteq> None"
    "find_boundary doc (getprop (extendObj default_options [?given, dataAttrs elm]) ''bottomElement'') \<noteq> None"
    unfolding Sticky_succeeds_iff by blast
  show ?thesis
    unfolding Sticky_succeeds_iff option.case t b using elm by blast
qed

text \<open>The scroll handler on a widget whose configured top offset does not parse.\<close>

lemma scroll_unparseable_top:
  assumes "parseInt (getprop (ORIGINAL w) ''offsetTop'') = NaN"
  shows "if truthy (getprop (ORIGINAL w) ''offsetTop'')
         then scroll_offsetTop w = NaN
              \<and> fst (place w g elm) \<noteq> ''top'' \<and> fst (place w g elm) \<noteq> ''screen''
         else scroll_offsetTop w = Num 0
              \<and> snd (onScroll w g elm)
                  = snd (onScroll (w\<lparr>ORIGINAL := (ORIGINAL w)(''offsetTop'' \<mapsto> JNum (Num 0))\<rparr>) g elm)
              \<and> stickingTo (fst (onScroll w g elm))
                  = stickingTo (fst (onScroll
                      (w\<lparr>ORIGINAL := (ORIGINAL w)(''offsetTop'' \<mapsto> JNum (Num 0))\<rparr>) g elm))"
proof (cases "truthy (getprop (ORIGINAL w) ''offsetTop'')")
  case True
  then have "scroll_offsetTop w = NaN" using assms by (simp add: scroll_offsetTop_def)
  then show ?thesis using True place_NaN_top [of w g elm] by simp
next
  case False
  let ?v = "w\<lparr>ORIGINAL := (ORIGINAL w)(''offsetTop'' \<mapsto> JNum (Num 0))\<rparr>"
  have t: "scroll_offsetTop w = Num 0" using False by (simp add: scroll_offsetTop_def)
  have t': "scroll_offsetTop ?v = Num 0" by (simp add: scroll_offsetTop_def)
  have b': "scroll_offsetBottom ?v = scroll_offsetBottom w" by (simp add: scroll_offsetBottom_def)
  have "place w g elm = place ?v g elm" by (rule place_cong) (simp_all add: t t' b')
  then show ?thesis using False t onScroll_cong [of w g elm ?v] by simp
qed

text \<open>The same for the bottom offset.\<close>

lemma scroll_unparseable_bottom:
  assumes "parseInt (getprop (ORIGINAL w) ''offsetBottom'') = NaN"
  shows "if truthy (getprop (ORIGINAL w) ''offsetBottom'')
         then scroll_offsetBottom w = NaN
              \<and> (bottomRect_top g < elementRect_bottom g - elementRect_top g \<longrightarrow>
                    fst (place w g elm) = ''bottom''
                    \<and> inline_style (snd (place w g elm)) ''top'' = Some ''NaNpx'')
         else scroll_offsetBottom w = Num 0
              \<and> snd (onScroll w g elm)
                  = snd (onScroll (w\<lparr>ORIGINAL := (ORIGINAL w)(''offsetBottom'' \<mapsto> JNum (Num 0))\<rparr>) g elm)
              \<and> stickingTo (fst (onScroll w g elm))
                  = stickingTo (fst (onScroll
                      (w\<lparr>ORIGINAL := (ORIGINAL w)(''offsetBottom'' \<mapsto> JNum (Num 0))\<rparr>) g elm))"
proof (cases "truthy (getprop (ORIGINAL w) ''offsetBottom'')")
  case True
  then have "scroll_offsetBottom w = NaN" using assms by (simp add: scroll_offsetBottom_def)
  then show ?thesis using True place_NaN_bottom [of w g elm] by simp
next
  case False
  let ?v = "w\<lparr>ORIGINAL := (ORIGINAL w)(''offsetBottom'' \<mapsto> JNum (Num 0))\<rparr>"
  have b: "scroll_offsetBottom w = Num 0" using False by (simp add: scroll_offsetBottom_def)
  have b': "scroll_offsetBottom ?v = Num 0" by (simp add: scroll_offsetBottom_def)
  have t': "scroll_offsetTop ?v = scroll_offsetTop w" by (simp add: scroll_offsetTop_def)
  have "place w g elm = place ?v g elm" by (rule place_cong) (simp_all add: b b' t')
  then show ?thesis using False b onScroll_cong [of w g elm ?v] by simp
qed

text \<open>
  C6, as the code has it. Take a widget that the constructor has returned, at any later
  moment (after any number of resizes), with a configured \<^verbatim>\<open>offsetTop\<close> or \<^verbatim>\<open>offsetBottom\<close>
  that does not parse as a number.

  \<^item> The recomputation has no fallback: unless \<^verbatim>\<open>originalOffsetTop\<close> was supplied, it
    stores \<^verbatim>\<open>NaN\<close> as the original offset and as the cached offset, whether the
    configured value is falsy or not.
  \<^item> The scroll handler replaces the value by 0 exactly when it is falsy (\<^verbatim>\<open>undefined\<close>,
    \<^verbatim>\<open>null\<close>, \<^verbatim>\<open>false\<close>, \<^verbatim>\<open>NaN\<close>, the empty string): the tick then gives the element and
    the stored mode that it gives with the offset configured as 0.
  \<^item> A truthy value is used as \<^verbatim>\<open>NaN\<close>: as top offset it keeps the handler from ever
    taking the TOP or the SCREEN branch; as bottom offset it makes the BOTTOM branch
    assign \<^verbatim>\<open>'NaNpx'\<close>.
  \<^item> The offsets raise nothing in the constructor: if it returns a widget, it returns one
    for every other pair of offset values as well.
\<close>

theorem unparseable_offsets:
  assumes "Sticky sel opts doc lay = Inr we"
  shows
    "(is_undefined (getprop (ORIGINAL (fst we)) ''originalOffsetTop'')
        \<and> parseInt (getprop (ORIGINAL (fst we)) ''offsetTop'') = NaN \<longrightarrow>
          getprop (options (fst (resizes we lays))) ''originalOffsetTop'' = JNum NaN
          \<and> getprop (options (fst (resizes we lays))) ''offsetTop'' = JNum NaN)
     \<and> (is_undefined (getprop (ORIGINAL (fst we)) ''originalOffsetTop'')
        \<and> parseInt (getprop (ORIGINAL (fst we)) ''offsetBottom'') = NaN \<longrightarrow>
          getprop (options (fst (resizes we lays))) ''originalOffsetBottom'' = JNum NaN
          \<and> getprop (options (fst (resizes we lays))) ''offsetBottom'' = JNum NaN)
     \<and> (parseInt (getprop (ORIGINAL (fst we)) ''offsetTop'') = NaN \<longrightarrow>
          (if truthy (getprop (ORIGINAL (fst we)) ''offsetTop'')
           then scroll_offsetTop (fst (resizes we lays)) = NaN
                \<and> fst (place (fst (resizes we lays)) g elm) \<noteq> ''top''
                \<and> fst (place (fst (resizes we lays)) g elm) \<noteq> ''screen''
           else scroll_offsetTop (fst (resizes we lays)) = Num 0
                \<and> snd (onScroll (fst (resizes we lays)) g elm)
                    = snd (onScroll ((fst (resizes we lays))
                             \<lparr>ORIGINAL := (ORIGINAL (fst we))(''offsetTop'' \<mapsto> JNum (Num 0))\<rparr>) g elm)
                \<and> stickingTo (fst (onScroll (fst (resizes we lays)) g elm))
                    = stickingTo (fst (onScroll ((fst (resizes we lays))
                             \<lparr>ORIGINAL := (ORIGINAL (fst we))(''offsetTop'' \<mapsto> JNum (Num 0))\<rparr>) g elm))))
     \<and> (parseInt (getprop (ORIGINAL (fst we)) ''offsetBottom'') = NaN \<longrightarrow>
          (if truthy (getprop (ORIGINAL (fst we)) ''offsetBottom'')
           then scroll_offsetBottom (fst (resizes we lays)) = NaN
                \<and> (bottomRect_top g < elementRect_bottom g - elementRect_top g \<longrightarrow>
                      fst (place (fst (resizes we lays)) g elm) = ''bottom''
                      \<and> inline_style (snd (place (fst (resizes we lays)) g elm)) ''top''
                          = Some ''NaNpx'')
           else scroll_offsetBottom (fst (resizes we lays)) = Num 0
                \<and> snd (onScroll (fst (resizes we lays)) g elm)
                    = snd (onScroll ((fst (resizes we lays))
                             \<lparr>ORIGINAL := (ORIGINAL (fst we))(''offsetBottom'' \<mapsto> JNum (Num 0))\<rparr>) g elm)
                \<and> stickingTo (fst (onScroll (fst (resizes we lays)) g elm))
                    = stickingTo (fst (onScroll ((fst (resizes we lays))
                             \<lparr>ORIGINAL := (ORIGINAL (fst we))(''offsetBottom'' \<mapsto> JNum (Num 0))\<rparr>) g elm))))
     \<and> (\<exists>we'. Sticky sel
                 (Some ((case opts of None \<Rightarrow> Map.empty | Some given \<Rightarrow> given)
                          (''offsetTop'' \<mapsto> v, ''offsetBottom'' \<mapsto> v')))
                 doc lay = Inr we')"
proof -
  let ?w = "fst (resizes we lays)"
  obtain elm0 w0 where w0:
    "ORIGINAL w0 = options w0"
    "we = calculateOffsets (calculateOriginalSizes w0 lay) lay elm0"
    using Sticky_Inr [OF assms] by blast
  have orig: "ORIGINAL (fst we) = options w0" using w0 by simp
  have later: "ORIGINAL ?w = ORIGINAL (fst we)" by (rule resizes_ORIGINAL)
  have p1: "getprop (options ?w) ''originalOffsetTop'' = JNum NaN
            \<and> getprop (options ?w) ''offsetTop'' = JNum NaN"
    if u: "is_undefined (getprop (ORIGINAL (fst we)) ''originalOffsetTop'')"
      and n: "parseInt (getprop (ORIGINAL (fst we)) ''offsetTop'') = NaN"
  proof -
    have o: "getprop (options (fst we)) ''originalOffsetTop'' = JNum NaN"
      unfolding w0(2) using recompute_sets_originals(1) [of w0 lay elm0] u n by (simp add: orig)
    then have c: "getprop (options (fst we)) ''offsetTop'' = JNum NaN"
      unfolding w0(2) by (rule recompute_caches_NaN(1))
    show ?thesis using o c by (rule resizes_NaN_top)
  qed
  have p2: "getprop (options ?w) ''originalOffsetBottom'' = JNum NaN
            \<and> getprop (options ?w) ''offsetBottom'' = JNum NaN"
    if u: "is_undefined (getprop (ORIGINAL (fst we)) ''originalOffsetTop'')"
      and n: "parseInt (getprop (ORIGINAL (fst we)) ''offsetBottom'') = NaN"
  proof -
    have t: "getprop (options (fst we)) ''originalOffsetTop''
             = JNum (parseInt (getprop (options w0) ''offsetTop''))"
      unfolding w0(2) using recompute_sets_originals(1) [of w0 lay elm0] u by (simp add: orig)
    have o: "getprop (options (fst we)) ''originalOffsetBottom'' = JNum NaN"
      unfolding w0(2) using recompute_sets_originals(2) [of w0 lay elm0] u n by (simp add: orig)
    then have c: "getprop (options (fst we)) ''offsetBottom'' = JNum NaN"
      unfolding w0(2) by (rule recompute_caches_NaN(2))
    show ?thesis using t o c by (rule resizes_NaN_bottom)
  qed
  have p3: "parseInt (getprop (ORIGINAL ?w) ''offsetTop'') = NaN \<Longrightarrow>
            (if truthy (getprop (ORIGINAL ?w) ''offsetTop'')
             then scroll_offsetTop ?w = NaN
                  \<and> fst (place ?w g elm) \<noteq> ''top'' \<and> fst (place ?w g elm) \<noteq> ''screen''
             else scroll_offsetTop ?w = Num 0
                  \<and> snd (onScroll ?w g elm)
                      = snd (onScroll (?w\<lparr>ORIGINAL := (ORIGINAL ?w)(''offsetTop'' \<mapsto> JNum (Num 0))\<rparr>) g elm)
                  \<and> stickingTo (fst (onScroll ?w g elm))
                      = stickingTo (fst (onScroll
                          (?w\<lparr>ORIGINAL := (ORIGINAL ?w)(''offsetTop'' \<mapsto> JNum (Num 0))\<rparr>) g elm)))"
    by (rule scroll_unparseable_top)
  have p4: "parseInt (getprop (ORIGINAL ?w) ''offsetBottom'') = NaN \<Longrightarrow>
            (if truthy (getprop (ORIGINAL ?w) ''offsetBottom'')
             then scroll_offsetBottom ?w = NaN
                  \<and> (bottomRect_top g < elementRect_bottom g - elementRect_top g \<longrightarrow>
                        fst (place ?w g elm) = ''bottom''
                        \<and> inline_style (snd (place ?w g elm)) ''top'' = Some ''NaNpx'')
             else scroll_offsetBottom ?w = Num 0
                  \<and> snd (onScroll ?w g elm)
                      = snd (onScroll (?w\<lparr>ORIGINAL := (ORIGINAL ?w)(''offsetBottom'' \<mapsto> JNum (Num 0))\<rparr>) g elm)
                  \<and> stickingTo (fst (onScroll ?w g elm))
                      = stickingTo (fst (onScroll
                          (?w\<lparr>ORIGINAL := (ORIGINAL ?w)(''offsetBottom'' \<mapsto> JNum (Num 0))\<rparr>) g elm)))"
    by (rule scroll_unparseable_bottom)
  have p5: "\<exists>we'. Sticky sel
                 (Some ((case opts of None \<Rightarrow> Map.empty | Some given \<Rightarrow> given)
                          (''offsetTop'' \<mapsto> v, ''offsetBottom'' \<mapsto> v')))
                 doc lay = Inr we'"
    using assms by (rule Sticky_succeeds_any_offsets)
  show ?thesis
    using p1 p2 p3 [unfolded later] p4 [unfolded later] p5 by blast
qed

theorem unparseable_offsets_witness:
  "(case Sticky (SelElement plain_element)
          (Some [''offsetTop'' \<mapsto> JStr ''abc'', ''offsetBottom'' \<mapsto> JStr []]) header_page
          (header_layout (wide_geometry 40 100 900)) of
      Inl err \<Rightarrow> False
    | Inr we \<Rightarrow>
        is_undefined (getprop (ORIGINAL (fst we)) ''originalOffsetTop'')
        \<and> parseInt (getprop (ORIGINAL (fst we)) ''offsetTop'') = NaN
        \<and> parseInt (getprop (ORIGINAL (fst we)) ''offsetBottom'') = NaN
        \<and> truthy (getprop (ORIGINAL (fst we)) ''offsetTop'')
        \<and> \<not> truthy (getprop (ORIGINAL (fst we)) ''offsetBottom'')
        \<and> getprop (options (fst (resizes we [header_layout (wide_geometry 40 (- 30) 900)])))
             ''originalOffsetTop'' = JNum NaN
        \<and> getprop (options (fst (resizes we [header_layout (wide_geometry 40 (- 30) 900)])))
             ''offsetTop'' = JNum NaN
        \<and> getprop (options (fst (resizes we [header_layout (wide_geometry 40 (- 30) 900)])))
             ''originalOffsetBottom'' = JNum NaN
        \<and> getprop (options (fst (resizes we [header_layout (wide_geometry 40 (- 30) 900)])))
             ''offsetBottom'' = JNum NaN
        \<and> scroll_offsetTop (fst (resizes we [header_layout (wide_geometry 40 (- 30) 900)])) = NaN
        \<and> fst (place (fst (resizes we [header_layout (wide_geometry 40 (- 30) 900)]))
                 (wide_geometry 40 (- 5) 900) plain_element) \<noteq> ''screen''
        \<and> scroll_offsetBottom (fst (resizes we [header_layout (wide_geometry 40 (- 30) 900)]))
             = Num 0)
   \<and> (case Sticky (SelElement plain_element)
          (Some [''offsetTop'' \<mapsto> JStr [], ''offsetBottom'' \<mapsto> JStr ''abc'']) header_page
          (header_layout (wide_geometry 40 100 900)) of
      Inl err \<Rightarrow> False
    | Inr we \<Rightarrow>
        parseInt (getprop (ORIGINAL (fst we)) ''offsetTop'') = NaN
        \<and> parseInt (getprop (ORIGINAL (fst we)) ''offsetBottom'') = NaN
        \<and> \<not> truthy (getprop (ORIGINAL (fst we)) ''offsetTop'')
        \<and> truthy (getprop (ORIGINAL (fst we)) ''offsetBottom'')
        \<and> bottomRect_top (wide_geometry 40 100 30)
            < elementRect_bottom (wide_geometry 40 100 30) - elementRect_top (wide_geometry 40 100 30)
        \<and> scroll_offsetTop (fst (resizes we [header_layout (wide_geometry 40 (- 30) 900)])) = Num 0
        \<and> scroll_offsetBottom (fst (resizes we [header_layout (wide_geometry 40 (- 30) 900)])) = NaN
        \<and> inline_style (snd (place (fst (resizes we [header_layout (wide_geometry 40 (- 30) 900)]))
                                (wide_geometry 40 100 30) plain_element)) ''top'' = Some ''NaNpx'')"
proof -
  let ?lay = "header_layout (wide_geometry 40 100 900)"
  let ?lays = "[header_layout (wide_geometry 40 (- 30) 900)]"
  let ?a = "[''offsetTop'' \<mapsto> JStr ''abc'', ''offsetBottom'' \<mapsto> JStr []]"
  let ?b = "[''offsetTop'' \<mapsto> JStr [], ''offsetBottom'' \<mapsto> JStr ''abc'']"
  have conf: "getprop (ORIGINAL (fst we)) ''offsetTop'' = getprop given ''offsetTop''
              \<and> getprop (ORIGINAL (fst we)) ''offsetBottom'' = getprop given ''offsetBottom''
              \<and> is_undefined (getprop (ORIGINAL (fst we)) ''originalOffsetTop'')"
    if h1: "Sticky (SelElement plain_element) (Some given) header_page ?lay = Inr we"
      and h2: "given ''offsetTop'' \<noteq> None" and h3: "given ''offsetBottom'' \<noteq> None"
      and h4: "given ''originalOffsetTop'' = None"
    for we given
  proof -
    obtain elm w0 where w0:
      "find_rootElement (SelElement plain_element) header_page = Inr elm"
      "options w0 = extendObj default_options
                      [case Some given of None \<Rightarrow> Map.empty | Some given \<Rightarrow> given, dataAttrs elm]"
      "ORIGINAL w0 = options w0"
      "we = calculateOffsets (calculateOriginalSizes w0 ?lay) ?lay elm"
      using Sticky_Inr [OF h1] by blast
    have elm: "elm = plain_element" using w0(1) by (simp add: find_rootElement_def)
    show ?thesis
      using w0(2,3,4) h2 h3 h4
      by (auto simp: elm getprop_def plain_element_def map_add_def default_options_def
          split: option.splits)
  qed
  have "\<exists>we. Sticky (SelElement plain_element) (Some ?a) header_page ?lay = Inr we"
    by (simp add: Sticky_def find_rootElement_def find_boundary_def header_page_def Let_def
        getprop_def default_options_def plain_element_def map_add_def)
  then obtain wa where wa: "Sticky (SelElement plain_element) (Some ?a) header_page ?lay = Inr wa" ..
  have "\<exists>we. Sticky (SelElement plain_element) (Some ?b) header_page ?lay = Inr we"
    by (simp add: Sticky_def find_rootElement_def find_boundary_def header_page_def Let_def
        getprop_def default_options_def plain_element_def map_add_def)
  then obtain wb where wb: "Sticky (SelElement plain_element) (Some ?b) header_page ?lay = Inr wb" ..
  have ca: "getprop (ORIGINAL (fst wa)) ''offsetTop'' = JStr ''abc''"
    "getprop (ORIGINAL (fst wa)) ''offsetBottom'' = JStr []"
    "is_undefined (getprop (ORIGINAL (fst wa)) ''originalOffsetTop'')"
    using conf [OF wa] by simp_all
  have cb: "getprop (ORIGINAL (fst wb)) ''offsetTop'' = JStr []"
    "getprop (ORIGINAL (fst wb)) ''offsetBottom'' = JStr ''abc''"
    using conf [OF wb] by simp_all
  have g: "bottomRect_top (wide_geometry 40 100 30)
            < elementRect_bottom (wide_geometry 40 100 30) - elementRect_top (wide_geometry 40 100 30)"
    by (simp add: wide_geometry_def)
  have A: "is_undefined (getprop (ORIGINAL (fst wa)) ''originalOffsetTop'')
        \<and> parseInt (getprop (ORIGINAL (fst wa)) ''offsetTop'') = NaN
        \<and> parseInt (getprop (ORIGINAL (fst wa)) ''offsetBottom'') = NaN
        \<and> truthy (getprop (ORIGINAL (fst wa)) ''offsetTop'')
        \<and> \<not> truthy (getprop (ORIGINAL (fst wa)) ''offsetBottom'')
        \<and> getprop (options (fst (resizes wa ?lays))) ''originalOffsetTop'' = JNum NaN
        \<and> getprop (options (fst (resizes wa ?lays))) ''offsetTop'' = JNum NaN
        \<and> getprop (options (fst (resizes wa ?lays))) ''originalOffsetBottom'' = JNum NaN
        \<and> getprop (options (fst (resizes wa ?lays))) ''offsetBottom'' = JNum NaN
        \<and> scroll_offsetTop (fst (resizes wa ?lays)) = NaN
        \<and> fst (place (fst (resizes wa ?lays)) (wide_geometry 40 (- 5) 900) plain_element) \<noteq> ''screen''
        \<and> scroll_offsetBottom (fst (resizes wa ?lays)) = Num 0"
    using unparseable_offsets [OF wa, of ?lays "wide_geometry 40 (- 5) 900" plain_element] ca
    by (simp add: parseInt_abc parseInt_empty)
  have B: "parseInt (getprop (ORIGINAL (fst wb)) ''offsetTop'') = NaN
        \<and> parseInt (getprop (ORIGINAL (fst wb)) ''offsetBottom'') = NaN
        \<and> \<not> truthy (getprop (ORIGINAL (fst wb)) ''offsetTop'')
        \<and> truthy (getprop (ORIGINAL (fst wb)) ''offsetBottom'')
        \<and> bottomRect_top (wide_geometry 40 100 30)
            < elementRect_bottom (wide_geometry 40 100 30) - elementRect_top (wide_geometry 40 100 30)
        \<and> scroll_offsetTop (fst (resizes wb ?lays)) = Num 0
        \<and> scroll_offsetBottom (fst (resizes wb ?lays)) = NaN
        \<and> inline_style (snd (place (fst (resizes wb ?lays)) (wide_geometry 40 100 30) plain_element))
             ''top'' = Some ''NaNpx''"
    using unparseable_offsets [OF wb, of ?lays "wide_geometry 40 100 30" plain_element] cb g
    by (simp add: parseInt_abc parseInt_empty)
  show ?thesis unfolding wa wb using A B by simp
qed

text \<open>
  C6 as stated fails: with \<^verbatim>\<open>offsetTop: 'abc'\<close> the scroll handler computes with \<^verbatim>\<open>NaN\<close>,
  not with 0. When the top boundary has scrolled above the viewport the widget takes no
  mode, where the offset 0 gives the mode \<^verbatim>\<open>'screen'\<close>; and the recomputation stores
  \<^verbatim>\<open>NaN\<close> as \<^verbatim>\<open>originalOffsetTop\<close>.
\<close>

theorem unparseable_offset_counterexample:
  "parseInt (JStr ''abc'') = NaN
   \<and> scroll_offsetTop (plain_widget [''offsetTop'' \<mapsto> JStr ''abc'']) = NaN
   \<and> scroll_offsetTop (plain_widget [''offsetTop'' \<mapsto> JStr ''abc'']) \<noteq> Num 0
   \<and> fst (place (plain_widget [''offsetTop'' \<mapsto> JStr ''abc'']) (wide_geometry 40 (- 5) 900)
        plain_element) = []
   \<and> fst (place (plain_widget [''offsetTop'' \<mapsto> JNum (Num 0)]) (wide_geometry 40 (- 5) 900)
        plain_element) = ''screen''
   \<and> getprop (options (calculateOriginalSizes (plain_widget [''offsetTop'' \<mapsto> JStr ''abc''])
        (header_layout (wide_geometry 40 (- 5) 900)))) ''originalOffsetTop'' = JNum NaN"
proof -
  let ?w = "plain_widget [''offsetTop'' \<mapsto> JStr ''abc'']"
  let ?v = "plain_widget [''offsetTop'' \<mapsto> JNum (Num 0)]"
  let ?g = "wide_geometry 40 (- 5) 900"
  have s: "scroll_offsetTop ?w = NaN"
    by (simp add: scroll_offsetTop_def plain_widget_def parseInt_abc)
  have s0: "scroll_offsetTop ?v = Num 0"
    by (simp add: scroll_offsetTop_def plain_widget_def)
  have p: "fst (place ?w ?g plain_element) = []"
    by (simp add: place_def s elementHeight_def wide_geometry_def)
  have p0: "fst (place ?v ?g plain_element) = ''screen''"
    by (simp add: place_def s0 elementHeight_def wide_geometry_def)
  have c: "getprop (options (calculateOriginalSizes ?w (header_layout ?g))) ''originalOffsetTop''
           = JNum NaN"
    by (simp add: calculateOriginalSizes_originalOffsetTop plain_widget_def parseInt_abc)
  show ?thesis using s p p0 c by (simp add: parseInt_abc)
qed

section \<open>The browser sniffer\<close>

subsection \<open>Facts about the matcher\<close>

lemma toLowerCase_char_idem: "toLowerCase_char (toLowerCase_char c) = toLowerCase_char c"
  by (simp add: toLowerCase_char_def)

lemma toLowerCase_idem: "toLowerCase (toLowerCase s) = toLowerCase s"
  by (simp add: toLowerCase_def toLowerCase_char_idem)

lemma starts_with_Cons:
  "starts_with (x # xs) (c # cs) \<longleftrightarrow> c = x \<and> starts_with xs cs"
  by (auto simp: starts_with_def)

lemma match_literal_lit:
  "match_literal (lit p) s = (if starts_with p s then Some (drop (length p) s) else None)"
proof (induction p arbitrary: s)
  case Nil
  then show ?case by (simp add: lit_def starts_with_def)
next
  case (Cons x xs)
  show ?case
  proof (cases s)
    case Nil
    then show ?thesis by (simp add: lit_def starts_with_def)
  next
    case (Cons c cs)
    have "match_literal (lit (x # xs)) (c # cs) = (if c = x then match_literal (lit xs) cs else None)"
      by (simp add: lit_def)
    then show ?thesis using Cons Cons.IH [of cs] by (simp add: starts_with_Cons)
  qed
qed

lemma match_class_plus_greedy:
  "match_class_plus cls [] s =
     (if s \<noteq> [] \<and> cls (hd s) then Some (takeWhile cls s, dropWhile cls s) else None)"
proof (induction s)
  case Nil
  then show ?case by simp
next
  case (Cons c cs)
  then show ?case by (cases cs) auto
qed

lemma match_tail_lit:
  "match_tail (lit p) cls [] s =
     (if starts_with p s \<and> drop (length p) s \<noteq> [] \<and> cls (hd (drop (length p) s))
      then Some (takeWhile cls (drop (length p) s),
                 dropWhile any_char (dropWhile cls (drop (length p) s)))
      else None)"
  by (simp add: match_tail_def match_literal_lit match_class_plus_greedy)

lemma match_dotstar_none:
  assumes "p \<noteq> []" and "\<not> test_literal p s"
  shows "match_dotstar (lit p) cls [] s = None"
  using assms(2)
proof (induction s)
  case Nil
  then show ?case using assms(1) by (simp add: match_tail_lit starts_with_def)
next
  case (Cons c cs)
  then show ?case by (simp add: match_tail_lit)
qed

lemma match_dotstar_last:
  assumes "\<forall>c \<in> set pre. any_char c"
    and "match_tail l cls suf t = Some m"
    and "match_dotstar l cls suf (tl t) = None"
  shows "match_dotstar l cls suf (pre @ t) = Some m"
  using assms(1)
proof (induction pre)
  case Nil
  show ?case
  proof (cases t)
    case Nil
    then show ?thesis using assms(2) by simp
  next
    case (Cons c cs)
    then show ?thesis using assms(2,3) by simp
  qed
next
  case (Cons a pre)
  then show ?case by simp
qed

lemma replace_first_head:
  "match_dotstar l cls suf s = Some (grp, r) \<Longrightarrow> replace_first l cls suf s = Some (grp @ r)"
  by (cases s) simp_all

text \<open>
  On one line, with the literal followed by a character of the class and not occurring
  again later, the replacement yields the run of the class that follows the literal.
\<close>

lemma replace_group2_token:
  assumes p: "p \<noteq> []"
    and s: "s = pre @ p @ rest"
    and line: "\<forall>c \<in> set s. any_char c"
    and rest: "rest \<noteq> []" "cls (hd rest)"
    and last: "\<not> test_literal p (tl (p @ rest))"
  shows "replace_group2 (lit p) cls [] s = takeWhile cls rest"
proof -
  have "set (dropWhile cls rest) \<subseteq> set s"
    using s set_dropWhileD [of _ cls rest] by auto
  then have "\<forall>c \<in> set (dropWhile cls rest). any_char c" using line by blast
  then have dw: "dropWhile any_char (dropWhile cls rest) = []" by simp
  have sw: "starts_with p (p @ rest)" by (simp add: starts_with_def)
  have mt: "match_tail (lit p) cls [] (p @ rest) = Some (takeWhile cls rest, [])"
    using rest sw dw by (simp add: match_tail_lit)
  have none: "match_dotstar (lit p) cls [] (tl (p @ rest)) = None"
    using p last by (rule match_dotstar_none)
  have pre: "\<forall>c \<in> set pre. any_char c" using line s by simp
  have "match_dotstar (lit p) cls [] (pre @ (p @ rest)) = Some (takeWhile cls rest, [])"
    using pre mt none by (rule match_dotstar_last)
  then have "replace_first (lit p) cls [] s = Some (takeWhile cls rest @ [])"
    unfolding s by (rule replace_first_head)
  then show ?thesis by (simp add: replace_group2_def)
qed

lemma chrome_not_again:
  "\<not> test_literal ''chrome/'' rest \<Longrightarrow> \<not> test_literal ''chrome/'' (tl (''chrome/'' @ rest))"
  by (simp add: starts_with_def)

subsection \<open>Families\<close>

lemma sniff_webkit_flags:
  "family_flags (sniff_webkit b s) =
     (if test_literal ''chrome/'' s \<or> test_literal ''crios/'' s
      then [IE b, GECKO b, OPERA b, SAFARI b, KONQUEROR b, True]
      else [IE b, GECKO b, OPERA b, True, KONQUEROR b, CHROME b])"
  by (simp add: sniff_webkit_def family_flags_def)

lemma sniff_ie_flags:
  "family_flags (sniff_ie b s) = [True, GECKO b, OPERA b, SAFARI b, KONQUEROR b, CHROME b]"
  by (simp add: sniff_ie_def family_flags_def)

lemma sniff_gecko_flags:
  "family_flags (sniff_gecko b s) = [IE b, True, OPERA b, SAFARI b, KONQUEROR b, CHROME b]"
  by (simp add: sniff_gecko_def family_flags_def Let_def split: option.splits)

text \<open>
  C7. For every user-agent string the sniffer, run on the fresh Browser object, sets at
  most one of the flags IE, GECKO, OPERA, SAFARI, KONQUEROR, CHROME, and which one follows
  the precedence WebKit (CHROME or SAFARI), then Opera, then Konqueror, then IE/Trident,
  then Gecko; a string matching none of the patterns leaves all of them false. The list
  is in the order IE, GECKO, OPERA, SAFARI, KONQUEROR, CHROME.
\<close>

theorem sniffer_family_precedence:
  "family_flags (sniffUserAgent Browser ua) =
     (if test_literal ''applewebkit/'' (toLowerCase ua)
      then (if test_literal ''chrome/'' (toLowerCase ua) \<or> test_literal ''crios/'' (toLowerCase ua)
            then [False, False, False, False, False, True]
            else [False, False, False, True, False, False])
      else if test_literal ''opera'' (toLowerCase ua)
      then [False, False, True, False, False, False]
      else if test_literal ''konqueror'' (toLowerCase ua)
      then [False, False, False, False, True, False]
      else if test_literal ''msie'' (toLowerCase ua) \<or> test_literal ''trident'' (toLowerCase ua)
      then [True, False, False, False, False, False]
      else if test_literal ''gecko'' (toLowerCase ua)
      then [False, True, False, False, False, False]
      else [False, False, False, False, False, False])
   \<and> length (filter id (family_flags (sniffUserAgent Browser ua))) \<le> 1"
proof -
  have eq: "family_flags (sniffUserAgent Browser ua) =
     (if test_literal ''applewebkit/'' (toLowerCase ua)
      then (if test_literal ''chrome/'' (toLowerCase ua) \<or> test_literal ''crios/'' (toLowerCase ua)
            then [False, False, False, False, False, True]
            else [False, False, False, True, False, False])
      else if test_literal ''opera'' (toLowerCase ua)
      then [False, False, True, False, False, False]
      else if test_literal ''konqueror'' (toLowerCase ua)
      then [False, False, False, False, True, False]
      else if test_literal ''msie'' (toLowerCase ua) \<or> test_literal ''trident'' (toLowerCase ua)
      then [True, False, False, False, False, False]
      else if test_literal ''gecko'' (toLowerCase ua)
      then [False, True, False, False, False, False]
      else [False, False, False, False, False, False])"
    by (simp add: sniffUserAgent_def Let_def toLowerCase_idem sniff_webkit_flags sniff_ie_flags
        sniff_gecko_flags Browser_def)
      (simp add: family_flags_def)
  show ?thesis unfolding eq by simp
qed

theorem sniffer_family_precedence_witness:
  "family_flags (sniffUserAgent Browser chrome_ua) = [False, False, False, False, False, True]
   \<and> test_literal ''gecko'' (toLowerCase chrome_ua)
   \<and> family_flags (sniffUserAgent Browser firefox_ua) = [False, True, False, False, False, False]
   \<and> family_flags (sniffUserAgent Browser lynx_ua) = [False, False, False, False, False, False]"
proof -
  have c: "test_literal ''applewebkit/'' (toLowerCase chrome_ua)"
    "test_literal ''chrome/'' (toLowerCase chrome_ua)" "test_literal ''gecko'' (toLowerCase chrome_ua)"
    by code_simp+
  have f: "\<not> test_literal ''applewebkit/'' (toLowerCase firefox_ua)"
    "\<not> test_literal ''opera'' (toLowerCase firefox_ua)"
    "\<not> test_literal ''konqueror'' (toLowerCase firefox_ua)"
    "\<not> test_literal ''msie'' (toLowerCase firefox_ua)"
    "\<not> test_literal ''trident'' (toLowerCase firefox_ua)"
    "test_literal ''gecko'' (toLowerCase firefox_ua)"
    by code_simp+
  have l: "\<not> test_literal ''applewebkit/'' (toLowerCase lynx_ua)"
    "\<not> test_literal ''opera'' (toLowerCase lynx_ua)"
    "\<not> test_literal ''konqueror'' (toLowerCase lynx_ua)"
    "\<not> test_literal ''msie'' (toLowerCase lynx_ua)"
    "\<not> test_literal ''trident'' (toLowerCase lynx_ua)"
    "\<not> test_literal ''gecko'' (toLowerCase lynx_ua)"
    by code_simp+
  show ?thesis
    using sniffer_family_precedence [of chrome_ua] sniffer_family_precedence [of firefox_ua]
      sniffer_family_precedence [of lynx_ua] c f l
    by simp
qed

text \<open>
  The Chrome branch where it works. Every user-agent string that contains
  \<^verbatim>\<open>applewebkit/\<close> and \<^verbatim>\<open>chrome/\<close> or \<^verbatim>\<open>crios/\<close>, case-insensitively, is classified as
  CHROME: the flag is true, the model is \<^verbatim>\<open>'chrome'\<close>, SAFARI stays false. When the
  lower-cased string is a single line in which \<^verbatim>\<open>chrome/\<close> is followed by a character
  that is not white space, and \<^verbatim>\<open>chrome/\<close> does not occur again after that, the version
  is the token after it, up to the next white space.
\<close>

theorem chrome_classification:
  assumes "test_literal ''applewebkit/'' (toLowerCase ua)"
    and "test_literal ''chrome/'' (toLowerCase ua) \<or> test_literal ''crios/'' (toLowerCase ua)"
  shows "CHROME (sniffUserAgent Browser ua)
         \<and> model (sniffUserAgent Browser ua) = Some ''chrome''
         \<and> \<not> SAFARI (sniffUserAgent Browser ua)
         \<and> (toLowerCase ua = pre @ ''chrome/'' @ rest
              \<and> rest \<noteq> [] \<and> \<not> is_space (hd rest)
              \<and> \<not> test_literal ''chrome/'' rest
              \<and> (\<forall>c \<in> set (toLowerCase ua). \<not> is_line_terminator c)
             \<longrightarrow> version (sniffUserAgent Browser ua)
                   = Some (takeWhile (\<lambda>c. \<not> is_space c) rest))"
proof -
  let ?s = "toLowerCase ua"
  let ?b = "Browser\<lparr>userAgent := Some ua, cssPrefix := Some ''-webkit-'', domPrefix := Some ''Webkit''\<rparr>"
  have r: "sniffUserAgent Browser ua =
             ?b\<lparr>CHROME := True, model := Some ''chrome'',
                 version := Some (replace_group2 (lit ''chrome/'') not_space [] ?s)\<rparr>"
    using assms by (simp add: sniffUserAgent_def Let_def sniff_webkit_def)
  have v: "replace_group2 (lit ''chrome/'') not_space [] ?s = takeWhile not_space rest"
    if "?s = pre @ ''chrome/'' @ rest" "rest \<noteq> []" "\<not> is_space (hd rest)"
       "\<not> test_literal ''chrome/'' rest" "\<forall>c \<in> set ?s. \<not> is_line_terminator c"
  proof (rule replace_group2_token [where pre = pre])
    show "''chrome/'' \<noteq> []" by simp
    show "?s = pre @ ''chrome/'' @ rest" by (rule that(1))
    show "\<forall>c \<in> set ?s. any_char c" using that(5) by (simp add: any_char_def)
    show "rest \<noteq> []" by (rule that(2))
    show "not_space (hd rest)" using that(3) by (simp add: not_space_def)
    show "\<not> test_literal ''chrome/'' (tl (''chrome/'' @ rest))"
      using that(4) by (rule chrome_not_again)
  qed
  have ns: "not_space = (\<lambda>c. \<not> is_space c)" by (rule ext) (simp add: not_space_def)
  show ?thesis
    unfolding r using v by (simp add: Browser_def ns)
qed

theorem chrome_classification_witness:
  "test_literal ''applewebkit/'' (toLowerCase chrome_ua)
   \<and> test_literal ''chrome/'' (toLowerCase chrome_ua)
   \<and> toLowerCase chrome_ua =
       ''mozilla/5.0 (x11; linux x86_64) applewebkit/537.36 (khtml, like gecko) ''
       @ ''chrome/'' @ ''30.0.1599.66 safari/537.36''
   \<and> CHROME (sniffUserAgent Browser chrome_ua)
   \<and> model (sniffUserAgent Browser chrome_ua) = Some ''chrome''
   \<and> \<not> SAFARI (sniffUserAgent Browser chrome_ua)
   \<and> version (sniffUserAgent Browser chrome_ua) = Some ''30.0.1599.66''"
proof -
  let ?pre = "''mozilla/5.0 (x11; linux x86_64) applewebkit/537.36 (khtml, like gecko) ''"
  let ?rest = "''30.0.1599.66 safari/537.36''"
  have h1: "test_literal ''applewebkit/'' (toLowerCase chrome_ua)" by code_simp
  have h2: "test_literal ''chrome/'' (toLowerCase chrome_ua) \<or> test_literal ''crios/'' (toLowerCase chrome_ua)"
    by code_simp
  have h2': "test_literal ''chrome/'' (toLowerCase chrome_ua)" by code_simp
  have s: "toLowerCase chrome_ua = ?pre @ ''chrome/'' @ ?rest" by code_simp
  have c1: "?rest \<noteq> []" by simp
  have c2: "\<not> is_space (hd ?rest)" by code_simp
  have c3: "\<not> test_literal ''chrome/'' ?rest" by code_simp
  have c4: "\<forall>c \<in> set (toLowerCase chrome_ua). \<not> is_line_terminator c" by code_simp
  have tok: "takeWhile (\<lambda>c. \<not> is_space c) ?rest = ''30.0.1599.66''" by code_simp
  show ?thesis
    using chrome_classification [OF h1 h2, of ?pre ?rest] h1 h2' s c1 c2 c3 c4 tok
    by simp
qed

text \<open>
  C8. A user agent with \<^verbatim>\<open>applewebkit/\<close> and \<^verbatim>\<open>crios/\<close> is classified as CHROME, and its
  version should be the version token. On Chrome for iOS, whose user agent has \<^verbatim>\<open>crios/\<close>
  and no \<^verbatim>\<open>chrome/\<close>, the code classifies it as CHROME, but the version pattern (which
  names \<^verbatim>\<open>chrome/\<close> only) does not match, and the version it stores is the whole
  lower-cased user agent, white space included.
\<close>

theorem crios_version_is_whole_user_agent:
  "test_literal ''applewebkit/'' (toLowerCase crios_ua)
   \<and> test_literal ''crios/'' (toLowerCase crios_ua)
   \<and> \<not> test_literal ''chrome/'' (toLowerCase crios_ua)
   \<and> CHROME (sniffUserAgent Browser crios_ua)
   \<and> version (sniffUserAgent Browser crios_ua) =
       Some ''mozilla/5.0 (iphone; cpu iphone os 7_0 like mac os x) applewebkit/537.51.1 (khtml, like gecko) crios/30.0.1599.12 mobile/11a465 safari/8536.25''"
  by code_simp

end
